theory Spec2Isabelle
  imports Main
begin

section \<open>Strings of the generator\<close>

text \<open>
  Go strings are byte sequences; they are modelled as \<open>string\<close> (a list of 8-bit
  characters). The characters that cannot be written inside an Isabelle string literal
  get names.
\<close>

definition dq :: string where
  "dq = [CHR 0x22]"

definition sq :: string where
  "sq = [CHR 0x27]"

definition nl :: string where
  "nl = [CHR 0x0A]"

text \<open>The constants \<open>lang\<close>, \<open>tab\<close>, \<open>tabtab\<close>, \<open>tabtabtab\<close> and
  \<open>minimumDartVersion\<close> of the Go file.\<close>

definition lang :: string where
  "lang = ''dart''"

definition minimumDartVersion :: string where
  "minimumDartVersion = ''1.12.0''"

definition tab :: string where
  "tab = ''  ''"

definition tabtab :: string where
  "tabtab = tab @ tab"

definition tabtabtab :: string where
  "tabtabtab = tab @ tab @ tab"

subsection \<open>The functions of Go's \<open>strings\<close> package that the generator calls\<close>

text \<open>
  \<open>strings.ToLower\<close> and \<open>strings.Title\<close> on ASCII text, which is what the
  identifiers of the IDL are: a byte outside \<open>A..Z\<close> (resp. \<open>a..z\<close>) is left as it is.
\<close>

definition lowerChar :: "char \<Rightarrow> char" where
  "lowerChar c =
     (case map_of (zip ''ABCDEFGHIJKLMNOPQRSTUVWXYZ'' ''abcdefghijklmnopqrstuvwxyz'') c of
        Some l \<Rightarrow> l | None \<Rightarrow> c)"

definition upperChar :: "char \<Rightarrow> char" where
  "upperChar c =
     (case map_of (zip ''abcdefghijklmnopqrstuvwxyz'' ''ABCDEFGHIJKLMNOPQRSTUVWXYZ'') c of
        Some u \<Rightarrow> u | None \<Rightarrow> c)"

definition ToLower :: "string \<Rightarrow> string" where
  "ToLower s = map lowerChar s"

text \<open>\<open>\w\<close> of Go's regular expressions, which is also what Go's \<open>isSeparator\<close>
  excludes among the ASCII characters: letters, digits and the underscore.\<close>

definition wordChar :: "char \<Rightarrow> bool" where
  "wordChar c \<longleftrightarrow>
     c \<in> set ''abcdefghijklmnopqrstuvwxyzABCDEFGHIJKLMNOPQRSTUVWXYZ0123456789_''"

text \<open>Go's \<open>isSeparator\<close>: an ASCII character that is not a letter, a digit or the
  underscore separates words; a byte above \<open>0x7F\<close> is taken as part of a word.\<close>

definition isSeparator :: "char \<Rightarrow> bool" where
  "isSeparator c \<longleftrightarrow> \<not> wordChar c \<and> of_char c < (128::nat)"

text \<open>\<open>strings.Title\<close> maps over the string with the previous character as its
  state (initially a space): a character that follows a separator is upper-cased.\<close>

fun titleFrom :: "char \<Rightarrow> string \<Rightarrow> string" where
  "titleFrom prev [] = []"
| "titleFrom prev (r # rs) =
     (if isSeparator prev then upperChar r # titleFrom r rs else r # titleFrom r rs)"

definition Title :: "string \<Rightarrow> string" where
  "Title s = titleFrom (CHR '' '') s"

text \<open>\<open>toLibraryName\<close>: \<open>strings.Replace(name, ".", "_", -1)\<close>.\<close>

definition toLibraryName :: "string \<Rightarrow> string" where
  "toLibraryName name = map (\<lambda>c. if c = CHR ''.'' then CHR ''_'' else c) name"

subsection \<open>\<open>fmt.Sprintf\<close> with string operands\<close>

text \<open>
  The generator calls \<open>fmt.Sprintf\<close> with constant formats, which are written out as
  concatenations below, and once with a format computed from the scope's prefix
  (\<open>generatePrefixStringTemplate\<close>). For that call the function is modelled on the
  formats made of plain bytes, the verb \<open>%s\<close> and the escape \<open>%%\<close>, with Go's
  output for a missing operand (\<open>%!s(MISSING)\<close>), for operands left over
  (\<open>%!(EXTRA string=.., string=..)\<close>) and for a format ending in \<open>%\<close>
  (\<open>%!(NOVERB)\<close>). Any other verb, flag, width or index is outside the model, and the
  result is \<open>None\<close> there.
\<close>

fun extraOperands :: "string list \<Rightarrow> string" where
  "extraOperands [] = []"
| "extraOperands [a] = ''string='' @ a"
| "extraOperands (a # b # r) = ''string='' @ a @ '', '' @ extraOperands (b # r)"

definition extraString :: "string list \<Rightarrow> string" where
  "extraString a = (if a = [] then [] else ''%!(EXTRA '' @ extraOperands a @ '')'')"

fun Sprintf :: "string \<Rightarrow> string list \<Rightarrow> string option" where
  "Sprintf [] a = Some (extraString a)"
| "Sprintf (c # cs) a =
     (if c \<noteq> CHR ''%'' then map_option ((#) c) (Sprintf cs a)
      else (case cs of
              [] \<Rightarrow> Some (''%!(NOVERB)'' @ extraString a)
            | v # r \<Rightarrow>
                if v = CHR ''%'' then map_option ((#) (CHR ''%'')) (Sprintf r a)
                else if v = CHR ''s'' then
                  (case a of
                     [] \<Rightarrow> map_option ((@) ''%!s(MISSING)'') (Sprintf r [])
                   | x # a' \<Rightarrow> map_option ((@) x) (Sprintf r a'))
                else None))"

section \<open>The parsed schema\<close>

text \<open>
  The types of package \<open>parser\<close> are not part of the file; the generator reads the
  fields \<open>Name\<close>, \<open>Comment\<close>, \<open>Prefix\<close>, \<open>Operations\<close>, \<open>String\<close>,
  \<open>Variables\<close>, \<open>Scopes\<close>, \<open>Thrift.Namespaces\<close> and calls the accessors
  \<open>ParamName()\<close>, \<open>IncludeName()\<close>, \<open>ReferencedIncludes()\<close>,
  \<open>NamespaceForInclude(include, lang)\<close> and \<open>Template()\<close>. The records hold the
  fields, and what the first four accessors return; field names carry the record's
  name where two records have a field of the same name.
\<close>

record ScopePrefix =
  String :: string
  Variables :: "string list"

record Operation =
  opComment :: "string list option"
  opName :: string
  ParamName :: string
  IncludeName :: string

record Scope =
  scopeComment :: "string list option"
  scopeName :: string
  Prefix :: ScopePrefix
  Operations :: "Operation list"

record Frugal =
  Name :: string
  Namespaces :: "string \<rightharpoonup> string"
  ReferencedIncludes :: "string list"
  NamespaceForInclude :: "string \<Rightarrow> string \<Rightarrow> string option"
  Scopes :: "Scope list"

text \<open>
  Modelled from the spec: \<open>ScopePrefix.Template()\<close>, which is not in the file. The
  spec's prefix is a literal interspersed with named variables, written in braces
  (\<open>user.{id}\<close>), and its compiled form has one positional placeholder for each of them:
  every brace pair enclosing only name characters becomes the placeholder \<open>%s\<close> of
  \<open>fmt.Sprintf\<close>, and every other character is kept.
\<close>

function Template :: "string \<Rightarrow> string" where
  "Template [] = []"
| "Template (c # cs) =
     (if c = CHR ''{'' then
        (case dropWhile wordChar cs of
           [] \<Rightarrow> c # Template cs
         | d # r \<Rightarrow> if d = CHR ''}'' then ''%s'' @ Template r else c # Template cs)
      else c # Template cs)"
  by pat_completeness auto
termination
proof (relation "measure length")
  show "wf (measure length)" by simp
next
  fix c :: char and cs :: string and d :: char and r :: string
  assume "dropWhile wordChar cs = d # r"
  then have "length (d # r) \<le> length cs"
    by (metis length_dropWhile_le)
  then show "(r, c # cs) \<in> measure length" by simp
qed simp_all

section \<open>The topic prefix\<close>

text \<open>
  \<open>generatePrefixStringTemplate\<close>. \<open>globals.TopicDelimiter\<close> is a constant of a
  package outside the file: it is the parameter \<open>delim\<close>. Each operand of the final
  \<open>fmt.Sprintf\<close> is \<open>fmt.Sprintf("${%s}", variable)\<close>.
\<close>

definition interpolation :: "string \<Rightarrow> string" where
  "interpolation variable = ''${'' @ variable @ ''}''"

definition generatePrefixStringTemplate :: "string \<Rightarrow> Scope \<Rightarrow> string option" where
  "generatePrefixStringTemplate delim scope =
     (if String (Prefix scope) = [] then Some []
      else
        let template = Template (String (Prefix scope)) @ delim in
        if length (Variables (Prefix scope)) = 0 then Some template
        else Sprintf template (map interpolation (Variables (Prefix scope))))"

section \<open>Qualified parameter names\<close>

text \<open>\<open>qualifiedParamName\<close>; the generator's \<open>g.Frugal\<close> is the argument
  \<open>frugal\<close>.\<close>

definition qualifiedParamName :: "Frugal \<Rightarrow> Operation \<Rightarrow> string" where
  "qualifiedParamName frugal op =
     (let param = ParamName op; include = IncludeName op in
      if include \<noteq> [] then
        let namespace = (case NamespaceForInclude frugal include lang of
                           Some ns \<Rightarrow> ns | None \<Rightarrow> include);
            namespace = toLibraryName namespace
        in ''t_'' @ ToLower namespace @ ''.'' @ param
      else ''t_'' @ ToLower param @ ''.'' @ param)"

section \<open>Output files\<close>

text \<open>
  \<open>filepath.Join\<close> of a directory and one plain component. \<open>GenerateFile\<close> takes
  the file type it supports (\<open>generator.CombinedScopeFile\<close>) and the method
  \<open>CreateFile\<close> of the base generator as parameters: both are declared outside the
  file. The Go function returns a file and an error; the model returns one or the other.
\<close>

definition Join :: "string \<Rightarrow> string \<Rightarrow> string" where
  "Join dir name = dir @ ''/'' @ name"

datatype ('t, 'e) generateError = BadFileType 't | CreateFileError 'e

definition GenerateFile ::
  "'t \<Rightarrow> (string \<Rightarrow> string \<Rightarrow> string \<Rightarrow> bool \<Rightarrow> 'e + 'f) \<Rightarrow>
   string \<Rightarrow> string \<Rightarrow> 't \<Rightarrow> ('t, 'e) generateError + 'f" where
  "GenerateFile CombinedScopeFile CreateFile name outputDir fileType =
     (if fileType \<noteq> CombinedScopeFile then Inl (BadFileType fileType)
      else
        let outputDir = Join outputDir ''lib'';
            outputDir = Join outputDir ''src''
        in (case CreateFile (ToLower name) outputDir lang True of
              Inl err \<Rightarrow> Inl (CreateFileError err)
            | Inr file \<Rightarrow> Inr file))"

section \<open>The dependency manifest\<close>

record gitDep =
  URL :: string

record dep =
  Git :: gitDep
  Path :: string

record env =
  SDK :: string

record pubspec =
  pubspecName :: string
  Version :: string
  Description :: string
  Environment :: env
  Dependencies :: "string \<rightharpoonup> dep"

text \<open>The literals \<open>dep{Git: gitDep{URL: u}}\<close> and \<open>dep{Path: p}\<close>: the field that is
  not given is the empty string.\<close>

definition depGit :: "string \<Rightarrow> dep" where
  "depGit u = \<lparr>Git = \<lparr>URL = u\<rparr>, Path = []\<rparr>"

definition depPath :: "string \<Rightarrow> dep" where
  "depPath p = \<lparr>Git = \<lparr>URL = []\<rparr>, Path = p\<rparr>"

text \<open>The loop of \<open>addToPubspec\<close> over the referenced includes, from the map that
  holds the two runtime libraries.\<close>

definition addInclude :: "Frugal \<Rightarrow> (string \<rightharpoonup> dep) \<Rightarrow> string \<Rightarrow> (string \<rightharpoonup> dep)" where
  "addInclude f deps include =
     (let namespace = (case NamespaceForInclude f include lang of
                         Some ns \<Rightarrow> ns | None \<Rightarrow> include)
      in deps(toLibraryName namespace \<mapsto> depPath (''../'' @ toLibraryName namespace)))"

definition dependencies :: "Frugal \<Rightarrow> (string \<rightharpoonup> dep)" where
  "dependencies f =
     foldl (addInclude f)
       [''thrift'' \<mapsto> depGit ''git@github.com:Workiva/thrift-dart.git'',
        ''frugal'' \<mapsto> depGit ''git@github.com:Workiva/frugal-dart.git'']
       (ReferencedIncludes f)"

text \<open>\<open>addToPubspec\<close> up to the value \<open>ps\<close> that it hands to \<open>yaml.Marshal\<close>;
  the serialisation and the write of the file are not modelled. \<open>globals.Version\<close> is
  the parameter \<open>version\<close>.\<close>

definition addToPubspec :: "string \<Rightarrow> Frugal \<Rightarrow> pubspec" where
  "addToPubspec version f =
     (let deps = dependencies f;
          namespace = (case Namespaces f lang of Some ns \<Rightarrow> ns | None \<Rightarrow> Name f)
      in \<lparr>pubspecName = ToLower (toLibraryName namespace),
          Version = version,
          Description = ''Autogenerated by the frugal compiler'',
          Environment = \<lparr>SDK = ''^'' @ minimumDartVersion\<rparr>,
          Dependencies = deps\<rparr>)"

section \<open>The facade file\<close>

text \<open>
  \<open>File.WriteAt(b, off)\<close> on a file opened for reading and writing: the bytes go to
  offset \<open>off\<close>, over what is there, and a gap beyond the end of the file reads as
  zero bytes.
\<close>

definition WriteAt :: "string \<Rightarrow> string \<Rightarrow> nat \<Rightarrow> string" where
  "WriteAt contents b off =
     take off (contents @ replicate (off - length contents) (CHR 0x00)) @ b @
     drop (off + length b) contents"

text \<open>The export line of one scope, and the loop over \<open>f.Scopes\<close> that starts from
  a line feed. \<open>generator.FilePrefix\<close> is the parameter \<open>filePrefix\<close>.\<close>

definition exportLine :: "string \<Rightarrow> Scope \<Rightarrow> string" where
  "exportLine filePrefix scope =
     ''export '' @ sq @ ''src/'' @ filePrefix @ ToLower (scopeName scope) @ ''.'' @ lang @ sq @
     '' show '' @ scopeName scope @ ''Publisher, '' @ scopeName scope @ ''Subscriber;'' @ nl"

definition exports :: "string \<Rightarrow> Frugal \<Rightarrow> string" where
  "exports filePrefix f = foldl (\<lambda>exports scope. exports @ exportLine filePrefix scope) nl (Scopes f)"

definition mainFilePath :: "Frugal \<Rightarrow> string \<Rightarrow> string" where
  "mainFilePath f dir =
     (let filename = (case Namespaces f lang of
                        Some ns \<Rightarrow> ToLower (toLibraryName ns) | None \<Rightarrow> ToLower (Name f));
          dartFile = filename @ ''.'' @ lang
      in Join (Join dir ''lib'') dartFile)"

text \<open>
  \<open>exportClasses\<close>. The file system is the function \<open>openFile\<close>, which gives the
  contents of the file at a path or the error of \<open>os.OpenFile\<close>; \<open>statErr\<close> and
  \<open>writeErr\<close> are the errors, if any, of \<open>Stat\<close> and \<open>WriteAt\<close>. The result is the
  error returned, or the contents of the facade file afterwards.
\<close>

definition exportClasses ::
  "string \<Rightarrow> (string \<Rightarrow> 'e + string) \<Rightarrow> 'e option \<Rightarrow> 'e option \<Rightarrow> Frugal \<Rightarrow> string \<Rightarrow> 'e + string" where
  "exportClasses filePrefix openFile statErr writeErr f dir =
     (case openFile (mainFilePath f dir) of
        Inl err \<Rightarrow> Inl err
      | Inr mainFile \<Rightarrow>
          (case statErr of
             Some err \<Rightarrow> Inl err
           | None \<Rightarrow>
               (case writeErr of
                  Some err \<Rightarrow> Inl err
                | None \<Rightarrow> Inr (WriteAt mainFile (exports filePrefix f) (length mainFile)))))"

section \<open>The source text of a scope\<close>

text \<open>\<open>GenerateConstants\<close>.\<close>

definition GenerateConstants :: "string \<Rightarrow> string" where
  "GenerateConstants delim = ''const String delimiter = '' @ sq @ delim @ sq @ '';''"

text \<open>The parameter list that both classes build from the prefix variables.\<close>

definition variableArgs :: "string list \<Rightarrow> string" where
  "variableArgs variables = foldl (\<lambda>args variable. args @ ''String '' @ variable @ '', '') [] variables"

text \<open>
  \<open>GeneratePublisher\<close>. \<open>GenerateInlineComment\<close> is a method of the base generator,
  outside the file: it is the parameter \<open>comment\<close>. \<open>publishOperation\<close> is the text
  that one turn of the loop over the operations appends after the separator, and
  \<open>publishOperations\<close> is the loop with its variable \<open>prefix\<close>.
\<close>

definition publishOperation ::
  "(string list \<Rightarrow> string \<Rightarrow> string) \<Rightarrow> string \<Rightarrow> Frugal \<Rightarrow> Scope \<Rightarrow> string \<Rightarrow> Operation \<Rightarrow>
   string option" where
  "publishOperation comment delim frugal scope args op =
     (case generatePrefixStringTemplate delim scope of
        None \<Rightarrow> None
      | Some template \<Rightarrow> Some (
          (case opComment op of None \<Rightarrow> [] | Some c \<Rightarrow> comment c (tab @ ''/'')) @
          tab @ ''Future publish'' @ opName op @ ''('' @ args @ qualifiedParamName frugal op @
            '' req) {'' @ nl @
          tabtab @ ''var op = '' @ dq @ opName op @ dq @ '';'' @ nl @
          tabtab @ ''var prefix = '' @ dq @ template @ dq @ '';'' @ nl @
          tabtab @ ''var topic = '' @ dq @ ''${prefix}'' @ Title (scopeName scope) @
            ''${delimiter}${op}'' @ dq @ '';'' @ nl @
          tabtab @ ''transport.preparePublish(topic);'' @ nl @
          tabtab @ ''var oprot = protocol;'' @ nl @
          tabtab @ ''seqId++;'' @ nl @
          tabtab @ ''var msg = new thrift.TMessage(op, thrift.TMessageType.CALL, seqId);'' @ nl @
          tabtab @ ''oprot.writeMessageBegin(msg);'' @ nl @
          tabtab @ ''req.write(oprot);'' @ nl @
          tabtab @ ''oprot.writeMessageEnd();'' @ nl @
          tabtab @ ''return oprot.transport.flush();'' @ nl @
          tab @ ''}'' @ nl))"

fun publishOperations ::
  "(string list \<Rightarrow> string \<Rightarrow> string) \<Rightarrow> string \<Rightarrow> Frugal \<Rightarrow> Scope \<Rightarrow> string \<Rightarrow> string \<Rightarrow>
   Operation list \<Rightarrow> string option" where
  "publishOperations comment delim frugal scope args prefix [] = Some []"
| "publishOperations comment delim frugal scope args prefix (op # ops) =
     (case publishOperation comment delim frugal scope args op of
        None \<Rightarrow> None
      | Some m \<Rightarrow>
          map_option (\<lambda>rest. prefix @ m @ rest)
            (publishOperations comment delim frugal scope args (nl @ nl) ops))"

definition GeneratePublisher ::
  "(string list \<Rightarrow> string \<Rightarrow> string) \<Rightarrow> string \<Rightarrow> Frugal \<Rightarrow> Scope \<Rightarrow> string option" where
  "GeneratePublisher comment delim frugal scope =
     map_option
       (\<lambda>methods.
          (case scopeComment scope of None \<Rightarrow> [] | Some c \<Rightarrow> comment c ''/'') @
          ''class '' @ Title (scopeName scope) @ ''Publisher {'' @ nl @
          tab @ ''frugal.Transport transport;'' @ nl @
          tab @ ''thrift.TProtocol protocol;'' @ nl @
          tab @ ''int seqId;'' @ nl @ nl @
          tab @ Title (scopeName scope) @ ''Publisher(frugal.Provider provider) {'' @ nl @
          tabtab @ ''var tp = provider.newTransportProtocol();'' @ nl @
          tabtab @ ''transport = tp.transport;'' @ nl @
          tabtab @ ''protocol = tp.protocol;'' @ nl @
          tabtab @ ''seqId = 0;'' @ nl @
          tab @ ''}'' @ nl @ nl @
          methods @
          ''}'' @ nl)
       (publishOperations comment delim frugal scope
          (variableArgs (Variables (Prefix scope))) [] (Operations scope))"

text \<open>\<open>GenerateSubscriber\<close>, in the same way.\<close>

definition subscribeOperation ::
  "(string list \<Rightarrow> string \<Rightarrow> string) \<Rightarrow> string \<Rightarrow> Frugal \<Rightarrow> Scope \<Rightarrow> string \<Rightarrow> Operation \<Rightarrow>
   string option" where
  "subscribeOperation comment delim frugal scope args op =
     (case generatePrefixStringTemplate delim scope of
        None \<Rightarrow> None
      | Some template \<Rightarrow> Some (
          (case opComment op of None \<Rightarrow> [] | Some c \<Rightarrow> comment c (tab @ ''/'')) @
          tab @ ''Future<frugal.Subscription> subscribe'' @ opName op @ ''('' @ args @
            ''dynamic on'' @ ParamName op @ ''('' @ qualifiedParamName frugal op @
            '' req)) async {'' @ nl @
          tabtab @ ''var op = '' @ dq @ opName op @ dq @ '';'' @ nl @
          tabtab @ ''var prefix = '' @ dq @ template @ dq @ '';'' @ nl @
          tabtab @ ''var topic = '' @ dq @ ''${prefix}'' @ Title (scopeName scope) @
            ''${delimiter}${op}'' @ dq @ '';'' @ nl @
          tabtab @ ''var tp = provider.newTransportProtocol();'' @ nl @
          tabtab @ ''await tp.transport.subscribe(topic);'' @ nl @
          tabtab @ ''tp.transport.signalRead.listen((_) {'' @ nl @
          tabtabtab @ ''on'' @ ParamName op @ ''(_recv'' @ opName op @ ''(op, tp.protocol));'' @ nl @
          tabtab @ ''});'' @ nl @
          tabtab @ ''var sub = new frugal.Subscription(topic, tp.transport);'' @ nl @
          tabtab @ ''tp.transport.error.listen((Error e) {;'' @ nl @
          tabtabtab @ ''sub.signal(e);'' @ nl @
          tabtab @ ''});'' @ nl @
          tabtab @ ''return sub;'' @ nl @
          tab @ ''}'' @ nl @ nl @
          tab @ qualifiedParamName frugal op @ '' _recv'' @ opName op @
            ''(String op, thrift.TProtocol iprot) {'' @ nl @
          tabtab @ ''var tMsg = iprot.readMessageBegin();'' @ nl @
          tabtab @ ''if (tMsg.name != op) {'' @ nl @
          tabtabtab @ ''thrift.TProtocolUtil.skip(iprot, thrift.TType.STRUCT);'' @ nl @
          tabtabtab @ ''iprot.readMessageEnd();'' @ nl @
          tabtabtab @ ''throw new thrift.TApplicationError('' @ nl @
          tabtabtab @ ''thrift.TApplicationErrorType.UNKNOWN_METHOD, tMsg.name);'' @ nl @
          tabtab @ ''}'' @ nl @
          tabtab @ ''var req = new '' @ qualifiedParamName frugal op @ ''();'' @ nl @
          tabtab @ ''req.read(iprot);'' @ nl @
          tabtab @ ''iprot.readMessageEnd();'' @ nl @
          tabtab @ ''return req;'' @ nl @
          tab @ ''}'' @ nl))"

fun subscribeOperations ::
  "(string list \<Rightarrow> string \<Rightarrow> string) \<Rightarrow> string \<Rightarrow> Frugal \<Rightarrow> Scope \<Rightarrow> string \<Rightarrow> string \<Rightarrow>
   Operation list \<Rightarrow> string option" where
  "subscribeOperations comment delim frugal scope args prefix [] = Some []"
| "subscribeOperations comment delim frugal scope args prefix (op # ops) =
     (case subscribeOperation comment delim frugal scope args op of
        None \<Rightarrow> None
      | Some m \<Rightarrow>
          map_option (\<lambda>rest. prefix @ m @ rest)
            (subscribeOperations comment delim frugal scope args (nl @ nl) ops))"

definition GenerateSubscriber ::
  "(string list \<Rightarrow> string \<Rightarrow> string) \<Rightarrow> string \<Rightarrow> Frugal \<Rightarrow> Scope \<Rightarrow> string option" where
  "GenerateSubscriber comment delim frugal scope =
     map_option
       (\<lambda>methods.
          (case scopeComment scope of None \<Rightarrow> [] | Some c \<Rightarrow> comment c ''/'') @
          ''class '' @ Title (scopeName scope) @ ''Subscriber {'' @ nl @
          tab @ ''final frugal.Provider provider;'' @ nl @ nl @
          tab @ Title (scopeName scope) @ ''Subscriber(this.provider) {}'' @ nl @ nl @
          methods @
          ''}'' @ nl)
       (subscribeOperations comment delim frugal scope
          (variableArgs (Variables (Prefix scope))) [] (Operations scope))"

section \<open>The Dart that the generator emits\<close>

text \<open>
  What the generated classes do when they run is a property of Dart text. The part of
  Dart that the generator writes is given an abstract syntax here, with the printer that
  gives its text back and an evaluator; the text that \<open>GeneratePublisher\<close> and
  \<open>GenerateSubscriber\<close> build is then shown to be the printed form of programs in
  this syntax.
\<close>

subsection \<open>Syntax and printing\<close>

datatype quote = Single | Double

datatype expr =
    StrLit quote string
  | IntLit nat
  | Ident string
  | Select expr string
  | Invoke expr string "expr list"
  | Create string "expr list"
  | Wrapped string expr

datatype stmt =
    Decl string expr
  | Assign string expr
  | Eval expr
  | Incr string
  | IfNotEqual expr expr "stmt list"
  | Throw expr
  | Return expr

record dartMethod =
  mComment :: string
  returns :: string
  mName :: string
  params :: "(string \<times> string) list"
  body :: "stmt list"

record dartClass =
  cComment :: string
  cName :: string
  fieldDecls :: "(string \<times> string) list"
  ctorParams :: "(string \<times> string) list"
  ctorBody :: "stmt list"
  methods :: "dartMethod list"

definition quoteChar :: "quote \<Rightarrow> char" where
  "quoteChar q = (case q of Single \<Rightarrow> CHR 0x27 | Double \<Rightarrow> CHR 0x22)"

definition digit :: "nat \<Rightarrow> char" where
  "digit n = ''0123456789'' ! n"

function decimal :: "nat \<Rightarrow> string" where
  "decimal n = (if n < 10 then [digit n] else decimal (n div 10) @ [digit (n mod 10)])"
  by pat_completeness auto
termination
  by (relation "measure id") auto

text \<open>\<open>Wrapped ind e\<close> is the expression \<open>e\<close> on a new line after the indentation
  \<open>ind\<close>; \<open>Select e f\<close> is \<open>e.f\<close>, \<open>Invoke e m args\<close> is \<open>e.m(args)\<close> and
  \<open>Create c args\<close> is \<open>new c(args)\<close>.\<close>

fun renderExpr :: "expr \<Rightarrow> string" and renderArgs :: "expr list \<Rightarrow> string" where
  "renderExpr (StrLit q s) = quoteChar q # s @ [quoteChar q]"
| "renderExpr (IntLit n) = decimal n"
| "renderExpr (Ident x) = x"
| "renderExpr (Select e f) = renderExpr e @ ''.'' @ f"
| "renderExpr (Invoke e m args) = renderExpr e @ ''.'' @ m @ ''('' @ renderArgs args @ '')''"
| "renderExpr (Create c args) = ''new '' @ c @ ''('' @ renderArgs args @ '')''"
| "renderExpr (Wrapped ind e) = nl @ ind @ renderExpr e"
| "renderArgs [] = []"
| "renderArgs [e] = renderExpr e"
| "renderArgs (e # e' # es) = renderExpr e @ '', '' @ renderArgs (e' # es)"

fun renderStmt :: "string \<Rightarrow> stmt \<Rightarrow> string" and renderBlock :: "string \<Rightarrow> stmt list \<Rightarrow> string" where
  "renderStmt ind (Decl x e) = ind @ ''var '' @ x @ '' = '' @ renderExpr e @ '';'' @ nl"
| "renderStmt ind (Assign x e) = ind @ x @ '' = '' @ renderExpr e @ '';'' @ nl"
| "renderStmt ind (Eval e) = ind @ renderExpr e @ '';'' @ nl"
| "renderStmt ind (Incr x) = ind @ x @ ''++;'' @ nl"
| "renderStmt ind (IfNotEqual a b ss) =
     ind @ ''if ('' @ renderExpr a @ '' != '' @ renderExpr b @ '') {'' @ nl @
     renderBlock (ind @ tab) ss @ ind @ ''}'' @ nl"
| "renderStmt ind (Throw e) = ind @ ''throw '' @ renderExpr e @ '';'' @ nl"
| "renderStmt ind (Return e) = ind @ ''return '' @ renderExpr e @ '';'' @ nl"
| "renderBlock ind [] = []"
| "renderBlock ind (s # ss) = renderStmt ind s @ renderBlock ind ss"

fun renderParams :: "(string \<times> string) list \<Rightarrow> string" where
  "renderParams [] = []"
| "renderParams [(t, x)] = t @ '' '' @ x"
| "renderParams ((t, x) # p # ps) = t @ '' '' @ x @ '', '' @ renderParams (p # ps)"

definition renderMethod :: "dartMethod \<Rightarrow> string" where
  "renderMethod m =
     mComment m @ tab @ returns m @ '' '' @ mName m @ ''('' @ renderParams (params m) @ '') {'' @ nl @
     renderBlock tabtab (body m) @ tab @ ''}'' @ nl"

fun renderMethods :: "dartMethod list \<Rightarrow> string" where
  "renderMethods [] = []"
| "renderMethods [m] = renderMethod m"
| "renderMethods (m # m' # ms) = renderMethod m @ nl @ nl @ renderMethods (m' # ms)"

definition renderClass :: "dartClass \<Rightarrow> string" where
  "renderClass c =
     cComment c @ ''class '' @ cName c @ '' {'' @ nl @
     concat (map (\<lambda>(t, x). tab @ t @ '' '' @ x @ '';'' @ nl) (fieldDecls c)) @ nl @
     tab @ cName c @ ''('' @ renderParams (ctorParams c) @ '') {'' @ nl @
     renderBlock tabtab (ctorBody c) @ tab @ ''}'' @ nl @ nl @
     renderMethods (methods c) @ ''}'' @ nl"

text \<open>A top-level constant \<open>const t x = e;\<close>.\<close>

definition renderConstant :: "string \<times> string \<times> expr \<Rightarrow> string" where
  "renderConstant d = (case d of (t, x, e) \<Rightarrow> ''const '' @ t @ '' '' @ x @ '' = '' @ renderExpr e @ '';'')"

subsection \<open>Evaluation\<close>

text \<open>
  Values: strings and integers (unbounded, as the \<open>int\<close> of the Dart that the manifest
  asks for), \<open>null\<close>, a name that is not bound in the method, its class or the
  library's constants (an import prefix, say), a member of another value, and an
  instance made by \<open>new\<close> from a class name and the arguments of its constructor.
  The libraries outside the generated text (transport, protocol, provider) are not
  interpreted: a method call on a value is recorded as an event, and its result is
  whatever the \<open>world\<close> answers to the events so far.
\<close>

datatype val =
    Null
  | Str string
  | Num int
  | Global string
  | Part val string
  | Instance string "val list"

datatype event = Call val string "val list"

type_synonym world = "event list \<Rightarrow> val"

record frame =
  locals :: "(string \<times> val) list"
  members :: "(string \<times> val) list"
  toplevel :: "(string \<times> val) list"
  trace :: "event list"

definition lookup :: "frame \<Rightarrow> string \<Rightarrow> val" where
  "lookup fr x =
     (case map_of (locals fr) x of
        Some v \<Rightarrow> v
      | None \<Rightarrow>
          (case map_of (members fr) x of
             Some v \<Rightarrow> v
           | None \<Rightarrow> (case map_of (toplevel fr) x of Some v \<Rightarrow> v | None \<Rightarrow> Global x)))"

fun assoc :: "string \<Rightarrow> val \<Rightarrow> (string \<times> val) list \<Rightarrow> (string \<times> val) list" where
  "assoc x v [] = [(x, v)]"
| "assoc x v ((k, w) # r) = (if k = x then (k, v) # r else (k, w) # assoc x v r)"

definition assign :: "string \<Rightarrow> val \<Rightarrow> frame \<Rightarrow> frame" where
  "assign x v fr =
     (if x \<in> fst ` set (locals fr) then fr\<lparr>locals := assoc x v (locals fr)\<rparr>
      else fr\<lparr>members := assoc x v (members fr)\<rparr>)"

text \<open>The members of a \<open>thrift.TMessage\<close> are the arguments of its constructor:
  \<open>name\<close>, \<open>type\<close> and \<open>seqid\<close>. Any other member is not interpreted.\<close>

fun select :: "val \<Rightarrow> string \<Rightarrow> val" where
  "select (Instance c [n, t, q]) f =
     (if c = ''thrift.TMessage'' \<and> f = ''name'' then n
      else if c = ''thrift.TMessage'' \<and> f = ''type'' then t
      else if c = ''thrift.TMessage'' \<and> f = ''seqid'' then q
      else Part (Instance c [n, t, q]) f)"
| "select v f = Part v f"

text \<open>
  A string literal of one line with the interpolations \<open>${x}\<close> of identifiers bound to
  strings. A backslash, a \<open>$\<close> that does not open \<open>${x}\<close>, the literal's own quote
  and a line break are outside the model: the result is \<open>None\<close> there.
\<close>

function interp :: "quote \<Rightarrow> (string \<Rightarrow> val) \<Rightarrow> string \<Rightarrow> string option" where
  "interp q look [] = Some []"
| "interp q look (c # cs) =
     (if c = CHR ''$'' then
        (case cs of
           [] \<Rightarrow> None
         | b # r \<Rightarrow>
             if b \<noteq> CHR ''{'' then None
             else (case dropWhile (\<lambda>x. x \<noteq> CHR ''}'') r of
                     [] \<Rightarrow> None
                   | e # r' \<Rightarrow>
                       (case look (takeWhile (\<lambda>x. x \<noteq> CHR ''}'') r) of
                          Str v \<Rightarrow> map_option ((@) v) (interp q look r')
                        | _ \<Rightarrow> None)))
      else if c = CHR 0x5C \<or> c = quoteChar q \<or> c = CHR 0x0A \<or> c = CHR 0x0D then None
      else map_option ((#) c) (interp q look cs))"
  by pat_completeness auto
termination
proof (relation "measure (\<lambda>(q, look, s). length s)")
  show "wf (measure (\<lambda>(q, look, s). length s))" by simp
next
  fix q :: quote and look :: "string \<Rightarrow> val" and c b e :: char and cs r r' :: string
  assume cs: "cs = b # r" and "dropWhile (\<lambda>x. x \<noteq> CHR ''}'') r = e # r'"
  then have "length (e # r') \<le> length r"
    by (metis length_dropWhile_le)
  with cs show "((q, look, r'), (q, look, c # cs)) \<in> measure (\<lambda>(q, look, s). length s)"
    by simp
qed simp_all

fun eval :: "world \<Rightarrow> expr \<Rightarrow> frame \<Rightarrow> (val \<times> frame) option"
  and evals :: "world \<Rightarrow> expr list \<Rightarrow> frame \<Rightarrow> (val list \<times> frame) option" where
  "eval w (StrLit q s) fr = map_option (\<lambda>t. (Str t, fr)) (interp q (lookup fr) s)"
| "eval w (IntLit n) fr = Some (Num (int n), fr)"
| "eval w (Ident x) fr = Some (lookup fr x, fr)"
| "eval w (Select e f) fr =
     (case eval w e fr of None \<Rightarrow> None | Some (v, fr') \<Rightarrow> Some (select v f, fr'))"
| "eval w (Invoke e m args) fr =
     (case eval w e fr of
        None \<Rightarrow> None
      | Some (r, fr') \<Rightarrow>
          (case evals w args fr' of
             None \<Rightarrow> None
           | Some (vs, fr'') \<Rightarrow>
               Some (w (trace fr'' @ [Call r m vs]), fr''\<lparr>trace := trace fr'' @ [Call r m vs]\<rparr>)))"
| "eval w (Create c args) fr =
     (case evals w args fr of None \<Rightarrow> None | Some (vs, fr') \<Rightarrow> Some (Instance c vs, fr'))"
| "eval w (Wrapped ind e) fr = eval w e fr"
| "evals w [] fr = Some ([], fr)"
| "evals w (e # es) fr =
     (case eval w e fr of
        None \<Rightarrow> None
      | Some (v, fr') \<Rightarrow>
          (case evals w es fr' of None \<Rightarrow> None | Some (vs, fr'') \<Rightarrow> Some (v # vs, fr'')))"

datatype outcome = Proceed frame | Returned val frame | Thrown val frame

fun exec :: "world \<Rightarrow> stmt \<Rightarrow> frame \<Rightarrow> outcome option"
  and execs :: "world \<Rightarrow> stmt list \<Rightarrow> frame \<Rightarrow> outcome option" where
  "exec w (Decl x e) fr =
     (case eval w e fr of
        None \<Rightarrow> None
      | Some (v, fr') \<Rightarrow> Some (Proceed (fr'\<lparr>locals := (x, v) # locals fr'\<rparr>)))"
| "exec w (Assign x e) fr =
     (case eval w e fr of None \<Rightarrow> None | Some (v, fr') \<Rightarrow> Some (Proceed (assign x v fr')))"
| "exec w (Eval e) fr =
     (case eval w e fr of None \<Rightarrow> None | Some (v, fr') \<Rightarrow> Some (Proceed fr'))"
| "exec w (Incr x) fr =
     (case lookup fr x of Num n \<Rightarrow> Some (Proceed (assign x (Num (n + 1)) fr)) | _ \<Rightarrow> None)"
| "exec w (IfNotEqual a b ss) fr =
     (case eval w a fr of
        None \<Rightarrow> None
      | Some (u, fr') \<Rightarrow>
          (case eval w b fr' of
             None \<Rightarrow> None
           | Some (v, fr'') \<Rightarrow> if u \<noteq> v then execs w ss fr'' else Some (Proceed fr'')))"
| "exec w (Throw e) fr =
     (case eval w e fr of None \<Rightarrow> None | Some (v, fr') \<Rightarrow> Some (Thrown v fr'))"
| "exec w (Return e) fr =
     (case eval w e fr of None \<Rightarrow> None | Some (v, fr') \<Rightarrow> Some (Returned v fr'))"
| "execs w [] fr = Some (Proceed fr)"
| "execs w (s # ss) fr =
     (case exec w s fr of
        Some (Proceed fr') \<Rightarrow> execs w ss fr'
      | r \<Rightarrow> r)"

text \<open>
  A call of a method: the parameters are bound to the arguments, the body runs on the
  instance's members, and the locals are gone afterwards. \<open>construct\<close> runs the
  constructor on fields that are \<open>null\<close>.
\<close>

definition bindParams :: "(string \<times> string) list \<Rightarrow> val list \<Rightarrow> (string \<times> val) list" where
  "bindParams ps args = rev (zip (map snd ps) args)"

definition leave :: "outcome \<Rightarrow> outcome" where
  "leave r =
     (case r of
        Proceed fr \<Rightarrow> Returned Null (fr\<lparr>locals := []\<rparr>)
      | Returned v fr \<Rightarrow> Returned v (fr\<lparr>locals := []\<rparr>)
      | Thrown v fr \<Rightarrow> Thrown v (fr\<lparr>locals := []\<rparr>))"

definition call :: "world \<Rightarrow> dartMethod \<Rightarrow> val list \<Rightarrow> frame \<Rightarrow> outcome option" where
  "call w m args this =
     (if length args \<noteq> length (params m) then None
      else map_option leave (execs w (body m) (this\<lparr>locals := bindParams (params m) args\<rparr>)))"

definition invoke :: "world \<Rightarrow> dartClass \<Rightarrow> string \<Rightarrow> val list \<Rightarrow> frame \<Rightarrow> outcome option" where
  "invoke w c name args this =
     (case find (\<lambda>m. mName m = name) (methods c) of
        None \<Rightarrow> None
      | Some m \<Rightarrow> call w m args this)"

definition construct ::
  "world \<Rightarrow> (string \<times> val) list \<Rightarrow> dartClass \<Rightarrow> val list \<Rightarrow> event list \<Rightarrow> outcome option" where
  "construct w consts c args tr =
     (if length args \<noteq> length (ctorParams c) then None
      else map_option leave
        (execs w (ctorBody c)
           \<lparr>locals = bindParams (ctorParams c) args,
            members = map (\<lambda>(t, x). (x, Null)) (fieldDecls c),
            toplevel = consts, trace = tr\<rparr>))"

text \<open>The constants of a library: each initialiser is evaluated on its own.\<close>

definition constantValue :: "string \<times> string \<times> expr \<Rightarrow> (string \<times> val) option" where
  "constantValue d =
     (case d of (t, x, e) \<Rightarrow>
        map_option (\<lambda>(v, fr). (x, v))
          (eval (\<lambda>tr. Null) e \<lparr>locals = [], members = [], toplevel = [], trace = []\<rparr>))"

subsection \<open>The generated text as programs\<close>

text \<open>The constant of \<open>GenerateConstants\<close>, the statements that compute the topic in
  the publish and the subscribe methods, the publisher class, and the receive method of
  the subscriber. \<open>template\<close> is the compiled prefix of the scope.\<close>

definition delimiterConstant :: "string \<Rightarrow> string \<times> string \<times> expr" where
  "delimiterConstant delim = (''String'', ''delimiter'', StrLit Single delim)"

definition topicStatements :: "Scope \<Rightarrow> string \<Rightarrow> Operation \<Rightarrow> stmt list" where
  "topicStatements scope template op =
     [Decl ''op'' (StrLit Double (opName op)),
      Decl ''prefix'' (StrLit Double template),
      Decl ''topic''
        (StrLit Double (''${prefix}'' @ Title (scopeName scope) @ ''${delimiter}${op}''))]"

definition publishStatements :: "stmt list" where
  "publishStatements =
     [Eval (Invoke (Ident ''transport'') ''preparePublish'' [Ident ''topic'']),
      Decl ''oprot'' (Ident ''protocol''),
      Incr ''seqId'',
      Decl ''msg''
        (Create ''thrift.TMessage''
           [Ident ''op'', Select (Select (Ident ''thrift'') ''TMessageType'') ''CALL'',
            Ident ''seqId'']),
      Eval (Invoke (Ident ''oprot'') ''writeMessageBegin'' [Ident ''msg'']),
      Eval (Invoke (Ident ''req'') ''write'' [Ident ''oprot'']),
      Eval (Invoke (Ident ''oprot'') ''writeMessageEnd'' []),
      Return (Invoke (Select (Ident ''oprot'') ''transport'') ''flush'' [])]"

definition publishMethod ::
  "(string list \<Rightarrow> string \<Rightarrow> string) \<Rightarrow> Frugal \<Rightarrow> Scope \<Rightarrow> string \<Rightarrow> Operation \<Rightarrow> dartMethod" where
  "publishMethod comment frugal scope template op =
     \<lparr>mComment = (case opComment op of None \<Rightarrow> [] | Some c \<Rightarrow> comment c (tab @ ''/'')),
      returns = ''Future'',
      mName = ''publish'' @ opName op,
      params = map (\<lambda>v. (''String'', v)) (Variables (Prefix scope)) @
               [(qualifiedParamName frugal op, ''req'')],
      body = topicStatements scope template op @ publishStatements\<rparr>"

definition publisherClass ::
  "(string list \<Rightarrow> string \<Rightarrow> string) \<Rightarrow> Frugal \<Rightarrow> Scope \<Rightarrow> string \<Rightarrow> dartClass" where
  "publisherClass comment frugal scope template =
     \<lparr>cComment = (case scopeComment scope of None \<Rightarrow> [] | Some c \<Rightarrow> comment c ''/''),
      cName = Title (scopeName scope) @ ''Publisher'',
      fieldDecls = [(''frugal.Transport'', ''transport''), (''thrift.TProtocol'', ''protocol''),
                    (''int'', ''seqId'')],
      ctorParams = [(''frugal.Provider'', ''provider'')],
      ctorBody =
        [Decl ''tp'' (Invoke (Ident ''provider'') ''newTransportProtocol'' []),
         Assign ''transport'' (Select (Ident ''tp'') ''transport''),
         Assign ''protocol'' (Select (Ident ''tp'') ''protocol''),
         Assign ''seqId'' (IntLit 0)],
      methods = map (publishMethod comment frugal scope template) (Operations scope)\<rparr>"

definition recvMethod :: "Frugal \<Rightarrow> Operation \<Rightarrow> dartMethod" where
  "recvMethod frugal op =
     \<lparr>mComment = [],
      returns = qualifiedParamName frugal op,
      mName = ''_recv'' @ opName op,
      params = [(''String'', ''op''), (''thrift.TProtocol'', ''iprot'')],
      body =
        [Decl ''tMsg'' (Invoke (Ident ''iprot'') ''readMessageBegin'' []),
         IfNotEqual (Select (Ident ''tMsg'') ''name'') (Ident ''op'')
           [Eval (Invoke (Select (Ident ''thrift'') ''TProtocolUtil'') ''skip''
                    [Ident ''iprot'', Select (Select (Ident ''thrift'') ''TType'') ''STRUCT'']),
            Eval (Invoke (Ident ''iprot'') ''readMessageEnd'' []),
            Throw (Create ''thrift.TApplicationError''
                     [Wrapped tabtabtab
                        (Select (Select (Ident ''thrift'') ''TApplicationErrorType'')
                           ''UNKNOWN_METHOD''),
                      Select (Ident ''tMsg'') ''name''])],
         Decl ''req'' (Create (qualifiedParamName frugal op) []),
         Eval (Invoke (Ident ''req'') ''read'' [Ident ''iprot'']),
         Eval (Invoke (Ident ''iprot'') ''readMessageEnd'' []),
         Return (Ident ''req'')]\<rparr>"

text \<open>
  The subscribe method of an operation: its signature, the statements that compute the
  topic, and the rest of its body, which is kept as text.
\<close>

definition subscribeText ::
  "(string list \<Rightarrow> string \<Rightarrow> string) \<Rightarrow> Frugal \<Rightarrow> Scope \<Rightarrow> string \<Rightarrow> Operation \<Rightarrow> string" where
  "subscribeText comment frugal scope template op =
     (case opComment op of None \<Rightarrow> [] | Some c \<Rightarrow> comment c (tab @ ''/'')) @
     tab @ ''Future<frugal.Subscription> subscribe'' @ opName op @ ''('' @
       variableArgs (Variables (Prefix scope)) @
       ''dynamic on'' @ ParamName op @ ''('' @ qualifiedParamName frugal op @
       '' req)) async {'' @ nl @
     renderBlock tabtab (topicStatements scope template op) @
     tabtab @ ''var tp = provider.newTransportProtocol();'' @ nl @
     tabtab @ ''await tp.transport.subscribe(topic);'' @ nl @
     tabtab @ ''tp.transport.signalRead.listen((_) {'' @ nl @
     tabtabtab @ ''on'' @ ParamName op @ ''(_recv'' @ opName op @ ''(op, tp.protocol));'' @ nl @
     tabtab @ ''});'' @ nl @
     tabtab @ ''var sub = new frugal.Subscription(topic, tp.transport);'' @ nl @
     tabtab @ ''tp.transport.error.listen((Error e) {;'' @ nl @
     tabtabtab @ ''sub.signal(e);'' @ nl @
     tabtab @ ''});'' @ nl @
     tabtab @ ''return sub;'' @ nl @
     tab @ ''}'' @ nl @ nl"

text \<open>Calls of methods of one instance, one after the other; each has to return.\<close>

fun invokeAll :: "world \<Rightarrow> dartClass \<Rightarrow> (string \<times> val list) list \<Rightarrow> frame \<Rightarrow> frame option" where
  "invokeAll w c [] this = Some this"
| "invokeAll w c ((name, args) # calls) this =
     (case invoke w c name args this of
        Some (Returned v this') \<Rightarrow> invokeAll w c calls this'
      | _ \<Rightarrow> None)"

section \<open>Notions that the statements use\<close>

text \<open>
  A text with holes: \<open>weave s0 [(h1, s1), ..., (hk, sk)]\<close> is \<open>s0 h1 s1 ... hk sk\<close>.
  A literal prefix with the named variables \<open>n1 ... nk\<close> is
  \<open>weave s0 (braces [(n1, s1), ..., (nk, sk)])\<close>.
\<close>

fun weave :: "string \<Rightarrow> (string \<times> string) list \<Rightarrow> string" where
  "weave s0 [] = s0"
| "weave s0 ((h, s) # r) = s0 @ h @ weave s r"

definition braces :: "(string \<times> string) list \<Rightarrow> (string \<times> string) list" where
  "braces nss = map (\<lambda>(n, s). (''{'' @ n @ ''}'', s)) nss"

text \<open>The segments of the literal prefix and the delimiter have no \<open>%\<close>, the segments
  have no opening brace, and the names in braces are made of name characters.\<close>

definition plainPrefix :: "string \<Rightarrow> (string \<times> string) list \<Rightarrow> string \<Rightarrow> bool" where
  "plainPrefix s0 nss delim \<longleftrightarrow>
     CHR ''%'' \<notin> set s0 \<and> CHR ''{'' \<notin> set s0 \<and> CHR ''%'' \<notin> set delim \<and>
     list_all (\<lambda>(n, s). list_all wordChar n \<and> CHR ''%'' \<notin> set s \<and> CHR ''{'' \<notin> set s) nss"

text \<open>The module name that the manifest derives from a referenced include, and the
  keys of a dependency map that hold a relative-path dependency.\<close>

definition moduleOf :: "Frugal \<Rightarrow> string \<Rightarrow> string" where
  "moduleOf f include =
     toLibraryName (case NamespaceForInclude f include lang of Some ns \<Rightarrow> ns | None \<Rightarrow> include)"

definition pathEntries :: "(string \<rightharpoonup> dep) \<Rightarrow> string set" where
  "pathEntries deps = {k. \<exists>d. deps k = Some d \<and> Path d \<noteq> []}"

text \<open>Text that a Dart string literal of either quote takes as it is: no \<open>$\<close>, no
  backslash, no quote and no line break.\<close>

definition plainText :: "string \<Rightarrow> bool" where
  "plainText s \<longleftrightarrow>
     list_all (\<lambda>c. c \<notin> set [CHR ''$'', CHR 0x5C, CHR 0x22, CHR 0x27, CHR 0x0A, CHR 0x0D]) s"

text \<open>The names that the generated methods use for themselves. The prefix variables
  become parameters of these methods: they are taken to be distinct identifiers other
  than these names.\<close>

definition reservedNames :: "string list" where
  "reservedNames =
     [''op'', ''prefix'', ''topic'', ''oprot'', ''msg'', ''req'', ''tp'', ''sub'', ''transport'',
      ''protocol'', ''seqId'', ''provider'', ''delimiter'', ''thrift'', ''frugal'']"

definition validVariables :: "string list \<Rightarrow> bool" where
  "validVariables vs \<longleftrightarrow>
     distinct vs \<and> list_all (\<lambda>v. list_all wordChar v \<and> v \<notin> set reservedNames) vs"

text \<open>
  A scope whose literal prefix is \<open>s0 {n1} s1 ... {nk} sk\<close>, with as many declared
  variables, and whose texts go into the format of \<open>fmt.Sprintf\<close> and into Dart string
  literals as they are.
\<close>

definition scopeShape :: "string \<Rightarrow> Scope \<Rightarrow> string \<Rightarrow> (string \<times> string) list \<Rightarrow> bool" where
  "scopeShape delim scope s0 nss \<longleftrightarrow>
     String (Prefix scope) = weave s0 (braces nss) \<and>
     length (Variables (Prefix scope)) = length nss \<and>
     plainPrefix s0 nss delim \<and>
     validVariables (Variables (Prefix scope)) \<and>
     plainText s0 \<and> list_all (\<lambda>(n, s). plainText s) nss \<and> plainText delim \<and>
     plainText (Title (scopeName scope))"

text \<open>The value of the compiled prefix when the variables have the values \<open>xs\<close>, and
  the topic of an operation.\<close>

definition prefixValue :: "string \<Rightarrow> Scope \<Rightarrow> string \<Rightarrow> (string \<times> string) list \<Rightarrow> string list \<Rightarrow> string" where
  "prefixValue delim scope s0 nss xs =
     (if String (Prefix scope) = [] then [] else weave s0 (zip xs (map snd nss)) @ delim)"

definition topicValue ::
  "string \<Rightarrow> Scope \<Rightarrow> string \<Rightarrow> (string \<times> string) list \<Rightarrow> string list \<Rightarrow> Operation \<Rightarrow> string" where
  "topicValue delim scope s0 nss xs op =
     prefixValue delim scope s0 nss xs @ Title (scopeName scope) @ delim @ opName op"

text \<open>The state of a publisher between two calls, and the events of one publish call
  that writes the sequence number \<open>k\<close>.\<close>

definition publisherState :: "val \<Rightarrow> val \<Rightarrow> int \<Rightarrow> string \<Rightarrow> event list \<Rightarrow> frame" where
  "publisherState transport protocol seqId delim tr =
     \<lparr>locals = [],
      members = [(''transport'', transport), (''protocol'', protocol), (''seqId'', Num seqId)],
      toplevel = [(''delimiter'', Str delim)],
      trace = tr\<rparr>"

definition publishEvents :: "val \<Rightarrow> val \<Rightarrow> string \<Rightarrow> string \<Rightarrow> int \<Rightarrow> val \<Rightarrow> event list" where
  "publishEvents transport protocol topic name k req =
     [Call transport ''preparePublish'' [Str topic],
      Call protocol ''writeMessageBegin''
        [Instance ''thrift.TMessage''
           [Str name, Part (Part (Global ''thrift'') ''TMessageType'') ''CALL'', Num k]],
      Call req ''write'' [protocol],
      Call protocol ''writeMessageEnd'' [],
      Call (select protocol ''transport'') ''flush'' []]"

text \<open>The state of a subscriber, whose only member is the provider.\<close>

definition subscriberState :: "val \<Rightarrow> string \<Rightarrow> event list \<Rightarrow> frame" where
  "subscriberState provider delim tr =
     \<lparr>locals = [], members = [(''provider'', provider)],
      toplevel = [(''delimiter'', Str delim)], trace = tr\<rparr>"

text \<open>
  Publish calls are given by the operation, the values of the prefix variables and the
  request. \<open>publishTrace\<close> is the events of a list of calls on a publisher whose
  counter is \<open>k\<close>; \<open>sequenceNumbers\<close> reads the sequence numbers of the envelopes
  written in a trace.
\<close>

definition publishCall :: "Operation \<times> string list \<times> val \<Rightarrow> string \<times> val list" where
  "publishCall c = (case c of (op, xs, req) \<Rightarrow> (''publish'' @ opName op, map Str xs @ [req]))"

fun publishTrace ::
  "val \<Rightarrow> val \<Rightarrow> string \<Rightarrow> Scope \<Rightarrow> string \<Rightarrow> (string \<times> string) list \<Rightarrow> int \<Rightarrow>
   (Operation \<times> string list \<times> val) list \<Rightarrow> event list" where
  "publishTrace T P delim scope s0 nss k [] = []"
| "publishTrace T P delim scope s0 nss k ((op, xs, req) # cs) =
     publishEvents T P (topicValue delim scope s0 nss xs op) (opName op) (k + 1) req @
     publishTrace T P delim scope s0 nss (k + 1) cs"

definition sequenceNumber :: "event \<Rightarrow> int option" where
  "sequenceNumber e =
     (case e of Call r m args \<Rightarrow>
        if m \<noteq> ''writeMessageBegin'' then None
        else (case args of
                [Instance c [n, t, Num q]] \<Rightarrow> if c = ''thrift.TMessage'' then Some q else None
              | _ \<Rightarrow> None))"

definition sequenceNumbers :: "event list \<Rightarrow> int list" where
  "sequenceNumbers tr = List.map_filter sequenceNumber tr"

section \<open>The scenario of the specification\<close>

text \<open>The scope \<open>Events\<close> with the prefix \<open>user.{id}\<close> and the operation
  \<open>Created\<close> on a \<open>UserEvent\<close> of the schema itself; no comments, and a world that
  answers \<open>null\<close> to every call.\<close>

definition createdOperation :: Operation where
  "createdOperation =
     \<lparr>opComment = None, opName = ''Created'', ParamName = ''UserEvent'', IncludeName = []\<rparr>"

definition eventsScope :: Scope where
  "eventsScope =
     \<lparr>scopeComment = None, scopeName = ''Events'',
      Prefix = \<lparr>String = ''user.{id}'', Variables = [''id'']\<rparr>,
      Operations = [createdOperation]\<rparr>"

definition noNamespace :: "string \<Rightarrow> string \<Rightarrow> string option" where
  "noNamespace include language = None"

definition eventsSchema :: Frugal where
  "eventsSchema =
     \<lparr>Name = ''events'', Namespaces = Map.empty, ReferencedIncludes = [],
      NamespaceForInclude = noNamespace, Scopes = [eventsScope]\<rparr>"

text \<open>A schema whose operations refer to an include named \<open>thrift\<close> that declares
  no namespace for Dart.\<close>

definition includesThrift :: Frugal where
  "includesThrift =
     \<lparr>Name = ''events'', Namespaces = Map.empty, ReferencedIncludes = [''thrift''],
      NamespaceForInclude = noNamespace, Scopes = []\<rparr>"

definition noComment :: "string list \<Rightarrow> string \<Rightarrow> string" where
  "noComment c p = []"

definition silent :: world where
  "silent tr = Null"

text \<open>A world that answers every call with the same value.\<close>

definition answering :: "val \<Rightarrow> world" where
  "answering v tr = v"

section \<open>Properties of the compiled prefix\<close>

lemma Template_append_plain: "CHR ''{'' \<notin> set s \<Longrightarrow> Template (s @ t) = s @ Template t"
  by (induction s) auto

lemma Template_plain: "CHR ''{'' \<notin> set s \<Longrightarrow> Template s = s"
  using Template_append_plain [of s "[]"] by simp

lemma dropWhile_word:
  "\<forall>c\<in>set n. wordChar c \<Longrightarrow> dropWhile wordChar (n @ CHR ''}'' # t) = CHR ''}'' # t"
  by (induction n) (auto simp: wordChar_def)

lemma Template_brace:
  assumes n: "\<forall>c\<in>set n. wordChar c"
  shows "Template (CHR ''{'' # n @ CHR ''}'' # t) = ''%s'' @ Template t"
proof -
  have "dropWhile wordChar (n @ CHR ''}'' # t) = CHR ''}'' # t"
    using n by (rule dropWhile_word)
  then show ?thesis
    by (simp del: dropWhile_append1 dropWhile_append2)
qed

lemma Sprintf_plain:
  "CHR ''%'' \<notin> set s \<Longrightarrow> Sprintf (s @ t) a = map_option ((@) s) (Sprintf t a)"
  by (induction s) (cases "Sprintf t a"; auto)+

lemma Template_splice:
  "CHR ''{'' \<notin> set s0 \<Longrightarrow>
   \<forall>(n, s)\<in>set nss. (\<forall>c\<in>set n. wordChar c) \<and> CHR ''{'' \<notin> set s \<Longrightarrow>
   Template (weave s0 (braces nss)) = weave s0 (map (\<lambda>(n, s). (''%s'', s)) nss)"
proof (induction nss arbitrary: s0)
  case Nil
  then show ?case by (simp add: braces_def Template_plain)
next
  case (Cons a nss)
  obtain n s where a: "a = (n, s)" by (cases a)
  from Cons.prems a have n: "\<forall>c\<in>set n. wordChar c" and s: "CHR ''{'' \<notin> set s"
    and r: "\<forall>(n, s)\<in>set nss. (\<forall>c\<in>set n. wordChar c) \<and> CHR ''{'' \<notin> set s"
    by auto
  have "Template (weave s0 (braces (a # nss))) =
        s0 @ Template (CHR ''{'' # n @ CHR ''}'' # weave s (braces nss))"
    using Cons.prems(1) by (simp add: a braces_def Template_append_plain del: Template.simps)
  also have "\<dots> = s0 @ ''%s'' @ Template (weave s (braces nss))"
    using Template_brace [OF n] by simp
  finally show ?case using Cons.IH [OF s r] by (simp add: a)
qed

lemma Sprintf_splice:
  "CHR ''%'' \<notin> set s0 \<Longrightarrow> \<forall>(n, s)\<in>set nss. CHR ''%'' \<notin> set s \<Longrightarrow> CHR ''%'' \<notin> set d \<Longrightarrow>
   length a = length nss \<Longrightarrow>
   Sprintf (weave s0 (map (\<lambda>(n, s). (''%s'', s)) nss) @ d) a =
   Some (weave s0 (zip a (map snd nss)) @ d)"
proof (induction nss arbitrary: s0 a)
  case Nil
  then show ?case using Sprintf_plain [of "s0 @ d" "[]" "[]"] by (simp add: extraString_def)
next
  case (Cons p nss)
  obtain n s where p: "p = (n, s)" by (cases p)
  from Cons.prems obtain x a' where a: "a = x # a'" and len: "length a' = length nss"
    by (cases a) auto
  from Cons.prems p have s: "CHR ''%'' \<notin> set s" and r: "\<forall>(n, s)\<in>set nss. CHR ''%'' \<notin> set s"
    by auto
  show ?case
    using Cons.IH [OF s r Cons.prems(3) len] Cons.prems(1)
    by (simp add: p a Sprintf_plain)
qed

lemma compiled_prefix:
  assumes str: "String (Prefix scope) = weave s0 (braces nss)"
    and ne: "nss \<noteq> []"
    and len: "length (Variables (Prefix scope)) = length nss"
    and plain: "plainPrefix s0 nss delim"
  shows "generatePrefixStringTemplate delim scope =
         Some (weave s0 (zip (map interpolation (Variables (Prefix scope))) (map snd nss)) @ delim)"
proof -
  from ne obtain p r where nss: "nss = p # r" by (cases nss) auto
  have nonempty: "String (Prefix scope) \<noteq> []"
    by (cases p) (simp add: str nss braces_def)
  have vars: "length (Variables (Prefix scope)) \<noteq> 0"
    using len ne by simp
  have t: "Template (String (Prefix scope)) = weave s0 (map (\<lambda>(n, s). (''%s'', s)) nss)"
    unfolding str using plain by (intro Template_splice) (auto simp: plainPrefix_def list_all_iff)
  have "Sprintf (weave s0 (map (\<lambda>(n, s). (''%s'', s)) nss) @ delim)
          (map interpolation (Variables (Prefix scope))) =
        Some (weave s0 (zip (map interpolation (Variables (Prefix scope))) (map snd nss)) @ delim)"
    using plain len by (intro Sprintf_splice) (auto simp: plainPrefix_def list_all_iff)
  then show ?thesis
    using nonempty vars by (simp add: generatePrefixStringTemplate_def t)
qed

text \<open>
  C1. The compiled topic prefix of a scope is empty when the literal prefix is empty.
  Otherwise it is the template of the literal prefix followed by the delimiter, as it is
  when the prefix declares no variables (the literal prefix itself when it has no
  placeholder); and when the literal prefix is \<open>s0 {n1} s1 ... {nk} sk\<close> and the prefix
  declares \<open>k\<close> variables, placeholder \<open>i\<close> is replaced by the interpolation \<open>${vi}\<close> of
  the \<open>i\<close>-th declared variable, whatever the names \<open>ni\<close> and \<open>vi\<close> are.
\<close>

theorem generatePrefixStringTemplate_compiles:
  "(String (Prefix scope) = [] \<longrightarrow> generatePrefixStringTemplate delim scope = Some [])
   \<and> (String (Prefix scope) \<noteq> [] \<and> Variables (Prefix scope) = [] \<longrightarrow>
        generatePrefixStringTemplate delim scope = Some (Template (String (Prefix scope)) @ delim))
   \<and> (String (Prefix scope) \<noteq> [] \<and> Variables (Prefix scope) = [] \<and>
      CHR ''{'' \<notin> set (String (Prefix scope)) \<longrightarrow>
        generatePrefixStringTemplate delim scope = Some (String (Prefix scope) @ delim))
   \<and> (String (Prefix scope) = weave s0 (braces nss) \<and> nss \<noteq> [] \<and>
      length (Variables (Prefix scope)) = length nss \<and> plainPrefix s0 nss delim \<longrightarrow>
        generatePrefixStringTemplate delim scope =
        Some (weave s0 (zip (map interpolation (Variables (Prefix scope))) (map snd nss)) @ delim))"
proof (intro conjI impI)
  assume "String (Prefix scope) = []"
  then show "generatePrefixStringTemplate delim scope = Some []"
    by (simp add: generatePrefixStringTemplate_def)
next
  assume "String (Prefix scope) \<noteq> [] \<and> Variables (Prefix scope) = []"
  then show "generatePrefixStringTemplate delim scope =
             Some (Template (String (Prefix scope)) @ delim)"
    by (simp add: generatePrefixStringTemplate_def)
next
  assume "String (Prefix scope) \<noteq> [] \<and> Variables (Prefix scope) = [] \<and>
          CHR ''{'' \<notin> set (String (Prefix scope))"
  then show "generatePrefixStringTemplate delim scope = Some (String (Prefix scope) @ delim)"
    by (simp add: generatePrefixStringTemplate_def Template_plain)
next
  assume "String (Prefix scope) = weave s0 (braces nss) \<and> nss \<noteq> [] \<and>
          length (Variables (Prefix scope)) = length nss \<and> plainPrefix s0 nss delim"
  then show "generatePrefixStringTemplate delim scope =
        Some (weave s0 (zip (map interpolation (Variables (Prefix scope))) (map snd nss)) @ delim)"
    by (intro compiled_prefix) simp_all
qed

theorem generatePrefixStringTemplate_compiles_witness:
  "generatePrefixStringTemplate ''.''
     \<lparr>scopeComment = None, scopeName = ''Events'',
      Prefix = \<lparr>String = [], Variables = []\<rparr>, Operations = []\<rparr> = Some []
   \<and> generatePrefixStringTemplate ''.''
     \<lparr>scopeComment = None, scopeName = ''Events'',
      Prefix = \<lparr>String = ''events'', Variables = []\<rparr>, Operations = []\<rparr> = Some ''events.''
   \<and> generatePrefixStringTemplate ''.''
     \<lparr>scopeComment = None, scopeName = ''Events'',
      Prefix = \<lparr>String = ''a.{x}.{y}'', Variables = [''y'', ''x'']\<rparr>, Operations = []\<rparr> =
     Some ''a.${y}.${x}.''"
  using
    generatePrefixStringTemplate_compiles [of
      "\<lparr>scopeComment = None, scopeName = ''Events'',
        Prefix = \<lparr>String = [], Variables = []\<rparr>, Operations = []\<rparr>" "''.''"]
    generatePrefixStringTemplate_compiles [of
      "\<lparr>scopeComment = None, scopeName = ''Events'',
        Prefix = \<lparr>String = ''events'', Variables = []\<rparr>, Operations = []\<rparr>" "''.''"]
    generatePrefixStringTemplate_compiles [of
      "\<lparr>scopeComment = None, scopeName = ''Events'',
        Prefix = \<lparr>String = ''a.{x}.{y}'', Variables = [''y'', ''x'']\<rparr>, Operations = []\<rparr>"
      "''.''" "''a.''" "[(''x'', ''.''), (''y'', [])]"]
  by (simp add: braces_def plainPrefix_def wordChar_def interpolation_def)

section \<open>Properties of qualified parameter names\<close>

text \<open>
  C4. With an originating include, the parameter type is qualified with \<open>t_\<close> and the
  lower-cased module name of the include's namespace for Dart, or of the include's own name
  when it has no such namespace. Without an include, the alias is the lower-cased
  parameter type name, and no other part of the schema, its namespace included, has a
  say: any two schemas give the same result.
\<close>

theorem qualifiedParamName_resolves:
  "(IncludeName op \<noteq> [] \<and> NamespaceForInclude frugal (IncludeName op) lang = Some ns \<longrightarrow>
      qualifiedParamName frugal op = ''t_'' @ ToLower (toLibraryName ns) @ ''.'' @ ParamName op)
   \<and> (IncludeName op \<noteq> [] \<and> NamespaceForInclude frugal (IncludeName op) lang = None \<longrightarrow>
      qualifiedParamName frugal op =
      ''t_'' @ ToLower (toLibraryName (IncludeName op)) @ ''.'' @ ParamName op)
   \<and> (IncludeName op = [] \<longrightarrow>
      qualifiedParamName frugal op = ''t_'' @ ToLower (ParamName op) @ ''.'' @ ParamName op \<and>
      qualifiedParamName frugal' op = qualifiedParamName frugal op)"
  by (simp add: qualifiedParamName_def Let_def)

theorem qualifiedParamName_resolves_witness:
  "qualifiedParamName
     \<lparr>Name = ''events'', Namespaces = [''dart'' \<mapsto> ''My.Events''],
      ReferencedIncludes = [''base''],
      NamespaceForInclude =
        (\<lambda>i l. if i = ''base'' \<and> l = ''dart'' then Some ''Acme.Base'' else None),
      Scopes = []\<rparr>
     \<lparr>opComment = None, opName = ''Created'', ParamName = ''UserEvent'', IncludeName = ''base''\<rparr>
   = ''t_acme_base.UserEvent''
   \<and> qualifiedParamName
     \<lparr>Name = ''events'', Namespaces = [''dart'' \<mapsto> ''My.Events''],
      ReferencedIncludes = [''Other.Lib''], NamespaceForInclude = (\<lambda>i l. None), Scopes = []\<rparr>
     \<lparr>opComment = None, opName = ''Created'', ParamName = ''UserEvent'',
      IncludeName = ''Other.Lib''\<rparr>
   = ''t_other_lib.UserEvent''
   \<and> qualifiedParamName
     \<lparr>Name = ''events'', Namespaces = [''dart'' \<mapsto> ''My.Events''],
      ReferencedIncludes = [], NamespaceForInclude = (\<lambda>i l. None), Scopes = []\<rparr>
     \<lparr>opComment = None, opName = ''Created'', ParamName = ''UserEvent'', IncludeName = []\<rparr>
   = ''t_userevent.UserEvent''"
  using
    qualifiedParamName_resolves [of
      "\<lparr>opComment = None, opName = ''Created'', ParamName = ''UserEvent'',
        IncludeName = ''base''\<rparr>"
      "\<lparr>Name = ''events'', Namespaces = [''dart'' \<mapsto> ''My.Events''],
        ReferencedIncludes = [''base''],
        NamespaceForInclude =
          (\<lambda>i l. if i = ''base'' \<and> l = ''dart'' then Some ''Acme.Base'' else None),
        Scopes = []\<rparr>" "''Acme.Base''"]
    qualifiedParamName_resolves [of
      "\<lparr>opComment = None, opName = ''Created'', ParamName = ''UserEvent'',
        IncludeName = ''Other.Lib''\<rparr>"
      "\<lparr>Name = ''events'', Namespaces = [''dart'' \<mapsto> ''My.Events''],
        ReferencedIncludes = [''Other.Lib''], NamespaceForInclude = (\<lambda>i l. None),
        Scopes = []\<rparr>"]
    qualifiedParamName_resolves [of
      "\<lparr>opComment = None, opName = ''Created'', ParamName = ''UserEvent'', IncludeName = []\<rparr>"
      "\<lparr>Name = ''events'', Namespaces = [''dart'' \<mapsto> ''My.Events''],
        ReferencedIncludes = [], NamespaceForInclude = (\<lambda>i l. None), Scopes = []\<rparr>"]
  by (simp add: lang_def ToLower_def toLibraryName_def lowerChar_def)

section \<open>Properties of \<open>GenerateFile\<close>\<close>

text \<open>
  C9. A file type other than the combined scope file makes \<open>GenerateFile\<close> return the
  bad-file-type error and no file; and when \<open>GenerateFile\<close> returns a file, the file
  type is the combined scope file and the file is the one that \<open>CreateFile\<close> made.
\<close>

theorem GenerateFile_file_types:
  "(fileType \<noteq> CombinedScopeFile \<longrightarrow>
      GenerateFile CombinedScopeFile CreateFile name outputDir fileType =
      Inl (BadFileType fileType))
   \<and> (GenerateFile CombinedScopeFile CreateFile name outputDir fileType = Inr file \<longrightarrow>
      fileType = CombinedScopeFile \<and>
      CreateFile (ToLower name) (Join (Join outputDir ''lib'') ''src'') lang True = Inr file)"
  by (auto simp: GenerateFile_def Let_def split: sum.splits if_splits)

theorem GenerateFile_file_types_witness:
  "GenerateFile (0::nat) (\<lambda>n d s p. (Inr (Join d (n @ ''.'' @ s)) :: unit + string))
     ''Events'' ''gen-dart'' 1 = Inl (BadFileType 1)
   \<and> GenerateFile (0::nat) (\<lambda>n d s p. (Inr (Join d (n @ ''.'' @ s)) :: unit + string))
     ''Events'' ''gen-dart'' 0 = Inr ''gen-dart/lib/src/events.dart''"
proof -
  have "GenerateFile (0::nat) (\<lambda>n d s p. (Inr (Join d (n @ ''.'' @ s)) :: unit + string))
     ''Events'' ''gen-dart'' 0 = Inr ''gen-dart/lib/src/events.dart''"
    by (simp add: GenerateFile_def Join_def ToLower_def lowerChar_def lang_def)
  then show ?thesis
    using
      GenerateFile_file_types [of "1::nat" 0
        "\<lambda>n d s p. (Inr (Join d (n @ ''.'' @ s)) :: unit + string)" "''Events''" "''gen-dart''"]
      GenerateFile_file_types [of "0::nat" 0
        "\<lambda>n d s p. (Inr (Join d (n @ ''.'' @ s)) :: unit + string)" "''Events''" "''gen-dart''"
        "''gen-dart/lib/src/events.dart''"]
    by simp
qed

section \<open>Properties of the dependency manifest\<close>

lemma foldl_addInclude:
  "foldl (addInclude f) m xs =
   (\<lambda>k. if k \<in> moduleOf f ` set xs then Some (depPath (''../'' @ k)) else m k)"
proof (induction xs arbitrary: m)
  case Nil
  show ?case by simp
next
  case (Cons x xs)
  have step: "addInclude f m x = m(moduleOf f x \<mapsto> depPath (''../'' @ moduleOf f x))"
    by (simp add: addInclude_def moduleOf_def Let_def)
  show ?case
    unfolding foldl_Cons Cons.IH step by (rule ext) auto
qed

lemma dependencies_eq:
  "dependencies f =
   (\<lambda>k. if k \<in> moduleOf f ` set (ReferencedIncludes f) then Some (depPath (''../'' @ k))
        else [''thrift'' \<mapsto> depGit ''git@github.com:Workiva/thrift-dart.git'',
              ''frugal'' \<mapsto> depGit ''git@github.com:Workiva/frugal-dart.git''] k)"
  unfolding dependencies_def by (rule foldl_addInclude)

lemma Dependencies_addToPubspec: "Dependencies (addToPubspec version f) = dependencies f"
  by (simp add: addToPubspec_def Let_def)

text \<open>
  C5, which fails as it is stated: an include whose module name is \<open>thrift\<close> takes the
  key of the runtime library, and the manifest has no git dependency for it any more.
\<close>

theorem manifest_git_dependency_replaced:
  "Dependencies (addToPubspec ''1.0.0'' includesThrift) ''thrift'' = Some (depPath ''../thrift'')
   \<and> depGit ''git@github.com:Workiva/thrift-dart.git'' \<notin>
     ran (Dependencies (addToPubspec ''1.0.0'' includesThrift))"
  by (auto simp: addToPubspec_def dependencies_def addInclude_def toLibraryName_def
      depGit_def depPath_def ran_def Let_def includesThrift_def noNamespace_def
      split: if_splits)

text \<open>
  C5, amended. The keys of the manifest's dependencies are \<open>thrift\<close>, \<open>frugal\<close> and the
  module names of the referenced includes. Every such module name \<open>m\<close> has the
  relative-path dependency \<open>../m\<close>, and \<open>thrift\<close> and \<open>frugal\<close> have their git
  dependency unless a referenced include has that module name. The relative-path
  dependencies are exactly the distinct module names: includes that resolve to the same
  namespace share one entry.
\<close>

theorem manifest_dependencies:
  "dom (Dependencies (addToPubspec version f)) =
     {''thrift'', ''frugal''} \<union> moduleOf f ` set (ReferencedIncludes f)
   \<and> (\<forall>m \<in> moduleOf f ` set (ReferencedIncludes f).
        Dependencies (addToPubspec version f) m = Some (depPath (''../'' @ m)))
   \<and> (''thrift'' \<notin> moduleOf f ` set (ReferencedIncludes f) \<longrightarrow>
        Dependencies (addToPubspec version f) ''thrift'' =
        Some (depGit ''git@github.com:Workiva/thrift-dart.git''))
   \<and> (''frugal'' \<notin> moduleOf f ` set (ReferencedIncludes f) \<longrightarrow>
        Dependencies (addToPubspec version f) ''frugal'' =
        Some (depGit ''git@github.com:Workiva/frugal-dart.git''))
   \<and> pathEntries (Dependencies (addToPubspec version f)) =
       moduleOf f ` set (ReferencedIncludes f)
   \<and> card (pathEntries (Dependencies (addToPubspec version f))) =
       length (remdups (map (moduleOf f) (ReferencedIncludes f)))"
proof -
  let ?M = "moduleOf f ` set (ReferencedIncludes f)"
  let ?D = "Dependencies (addToPubspec version f)"
  have D: "?D = (\<lambda>k. if k \<in> ?M then Some (depPath (''../'' @ k))
        else [''thrift'' \<mapsto> depGit ''git@github.com:Workiva/thrift-dart.git'',
              ''frugal'' \<mapsto> depGit ''git@github.com:Workiva/frugal-dart.git''] k)"
    by (simp only: Dependencies_addToPubspec dependencies_eq)
  have 1: "dom ?D = {''thrift'', ''frugal''} \<union> ?M"
    unfolding D by (auto simp: dom_def split: if_splits)
  have 2: "\<forall>m \<in> ?M. ?D m = Some (depPath (''../'' @ m))"
    unfolding D by simp
  have 3: "''thrift'' \<notin> ?M \<longrightarrow>
           ?D ''thrift'' = Some (depGit ''git@github.com:Workiva/thrift-dart.git'')"
    unfolding D by simp
  have 4: "''frugal'' \<notin> ?M \<longrightarrow>
           ?D ''frugal'' = Some (depGit ''git@github.com:Workiva/frugal-dart.git'')"
    unfolding D by simp
  have 5: "pathEntries ?D = ?M"
    unfolding D pathEntries_def by (force simp: depPath_def depGit_def split: if_splits)
  have 6: "card (pathEntries ?D) = length (remdups (map (moduleOf f) (ReferencedIncludes f)))"
    unfolding 5 by (simp add: length_remdups_card_conv)
  from 1 2 3 4 5 6 show ?thesis by blast
qed

theorem manifest_dependencies_witness:
  "pathEntries (Dependencies (addToPubspec ''1.0.0''
     \<lparr>Name = ''events'', Namespaces = Map.empty, ReferencedIncludes = [''one'', ''two''],
      NamespaceForInclude = (\<lambda>i l. if l = ''dart'' then Some ''a.b'' else None),
      Scopes = []\<rparr>)) = {''a_b''}
   \<and> card (pathEntries (Dependencies (addToPubspec ''1.0.0''
     \<lparr>Name = ''events'', Namespaces = Map.empty, ReferencedIncludes = [''one'', ''two''],
      NamespaceForInclude = (\<lambda>i l. if l = ''dart'' then Some ''a.b'' else None),
      Scopes = []\<rparr>))) = 1
   \<and> Dependencies (addToPubspec ''1.0.0''
     \<lparr>Name = ''events'', Namespaces = Map.empty, ReferencedIncludes = [''one'', ''two''],
      NamespaceForInclude = (\<lambda>i l. if l = ''dart'' then Some ''a.b'' else None),
      Scopes = []\<rparr>) ''a_b'' = Some (depPath ''../a_b'')
   \<and> Dependencies (addToPubspec ''1.0.0''
     \<lparr>Name = ''events'', Namespaces = Map.empty, ReferencedIncludes = [''one'', ''two''],
      NamespaceForInclude = (\<lambda>i l. if l = ''dart'' then Some ''a.b'' else None),
      Scopes = []\<rparr>) ''thrift'' = Some (depGit ''git@github.com:Workiva/thrift-dart.git'')"
  using manifest_dependencies [of "''1.0.0''"
      "\<lparr>Name = ''events'', Namespaces = Map.empty, ReferencedIncludes = [''one'', ''two''],
        NamespaceForInclude = (\<lambda>i l. if l = ''dart'' then Some ''a.b'' else None),
        Scopes = []\<rparr>"]
  by (simp add: moduleOf_def lang_def toLibraryName_def)

section \<open>Properties of the facade file\<close>

text \<open>The write is an append, with one line for each scope after a line feed.\<close>

lemma foldl_exportLine:
  "foldl (\<lambda>exports scope. exports @ exportLine filePrefix scope) acc scopes =
   acc @ concat (map (exportLine filePrefix) scopes)"
  by (induction scopes arbitrary: acc) simp_all

lemma exports_lines: "exports filePrefix f = nl @ concat (map (exportLine filePrefix) (Scopes f))"
  by (simp add: exports_def foldl_exportLine)

lemma WriteAt_end: "WriteAt contents b (length contents) = contents @ b"
  by (simp add: WriteAt_def)

lemma exportClasses_appends:
  assumes "exportClasses filePrefix openFile statErr writeErr f dir = Inr new"
  shows "\<exists>old. openFile (mainFilePath f dir) = Inr old \<and>
           new = old @ nl @ concat (map (exportLine filePrefix) (Scopes f)) \<and>
           take (length old) new = old"
  using assms
  by (auto simp: exportClasses_def WriteAt_end exports_lines split: sum.splits option.splits)

text \<open>
  C7. The export line of a scope names the classes by the scope's name as it is written,
  while the classes that \<open>GeneratePublisher\<close> and \<open>GenerateSubscriber\<close> declare
  have the capitalized name: for the scope \<open>events\<close> the facade exports
  \<open>eventsPublisher\<close> and \<open>eventsSubscriber\<close>, and the classes are \<open>EventsPublisher\<close>
  and \<open>EventsSubscriber\<close>.
\<close>

theorem exportClasses_lowercase_scope:
  "exportClasses filePrefix (\<lambda>p. Inr contents) None None
     \<lparr>Name = ''events'', Namespaces = Map.empty, ReferencedIncludes = [],
      NamespaceForInclude = (\<lambda>i l. None),
      Scopes = [\<lparr>scopeComment = None, scopeName = ''events'',
                 Prefix = \<lparr>String = [], Variables = []\<rparr>, Operations = []\<rparr>]\<rparr> dir =
   Inr (contents @ nl @ ''export '' @ sq @ ''src/'' @ filePrefix @ ''events.dart'' @ sq @
        '' show eventsPublisher, eventsSubscriber;'' @ nl)
   \<and> GeneratePublisher comment delim frugal
       \<lparr>scopeComment = None, scopeName = ''events'',
        Prefix = \<lparr>String = [], Variables = []\<rparr>, Operations = []\<rparr> =
     Some (''class EventsPublisher {'' @ nl @
        tab @ ''frugal.Transport transport;'' @ nl @
        tab @ ''thrift.TProtocol protocol;'' @ nl @
        tab @ ''int seqId;'' @ nl @ nl @
        tab @ ''EventsPublisher(frugal.Provider provider) {'' @ nl @
        tabtab @ ''var tp = provider.newTransportProtocol();'' @ nl @
        tabtab @ ''transport = tp.transport;'' @ nl @
        tabtab @ ''protocol = tp.protocol;'' @ nl @
        tabtab @ ''seqId = 0;'' @ nl @
        tab @ ''}'' @ nl @ nl @ ''}'' @ nl)
   \<and> GenerateSubscriber comment delim frugal
       \<lparr>scopeComment = None, scopeName = ''events'',
        Prefix = \<lparr>String = [], Variables = []\<rparr>, Operations = []\<rparr> =
     Some (''class EventsSubscriber {'' @ nl @
        tab @ ''final frugal.Provider provider;'' @ nl @ nl @
        tab @ ''EventsSubscriber(this.provider) {}'' @ nl @ nl @ ''}'' @ nl)"
  by (simp add: exportClasses_def WriteAt_def exports_def exportLine_def lang_def
      ToLower_def lowerChar_def GeneratePublisher_def GenerateSubscriber_def Title_def
      isSeparator_def wordChar_def upperChar_def)

section \<open>The generated text is the printed form of the programs\<close>

lemma foldl_variableArgs:
  "foldl (\<lambda>args variable. args @ ''String '' @ variable @ '', '') acc vs =
   acc @ concat (map (\<lambda>v. ''String '' @ v @ '', '') vs)"
  by (induction vs arbitrary: acc) simp_all

lemma renderParams_variables:
  "renderParams (map (\<lambda>v. (''String'', v)) vs @ [(t, x)]) =
   concat (map (\<lambda>v. ''String '' @ v @ '', '') vs) @ t @ '' '' @ x"
proof (induction vs)
  case Nil
  show ?case by simp
next
  case (Cons v vs)
  then show ?case by (cases vs) simp_all
qed

lemma variableArgs_params:
  "variableArgs vs @ t @ '' req'' = renderParams (map (\<lambda>v. (''String'', v)) vs @ [(t, ''req'')])"
  unfolding variableArgs_def foldl_variableArgs renderParams_variables by simp

lemma render_topicStatements:
  "renderBlock tabtab (topicStatements scope template op) =
     tabtab @ ''var op = '' @ dq @ opName op @ dq @ '';'' @ nl @
     tabtab @ ''var prefix = '' @ dq @ template @ dq @ '';'' @ nl @
     tabtab @ ''var topic = '' @ dq @ ''${prefix}'' @ Title (scopeName scope) @
       ''${delimiter}${op}'' @ dq @ '';'' @ nl"
  by (simp add: topicStatements_def quoteChar_def dq_def)

lemma render_publishStatements:
  "renderBlock tabtab publishStatements =
     tabtab @ ''transport.preparePublish(topic);'' @ nl @
     tabtab @ ''var oprot = protocol;'' @ nl @
     tabtab @ ''seqId++;'' @ nl @
     tabtab @ ''var msg = new thrift.TMessage(op, thrift.TMessageType.CALL, seqId);'' @ nl @
     tabtab @ ''oprot.writeMessageBegin(msg);'' @ nl @
     tabtab @ ''req.write(oprot);'' @ nl @
     tabtab @ ''oprot.writeMessageEnd();'' @ nl @
     tabtab @ ''return oprot.transport.flush();'' @ nl"
  by (simp add: publishStatements_def)

lemma renderBlock_append: "renderBlock ind (ss @ ts) = renderBlock ind ss @ renderBlock ind ts"
  by (induction ss) simp_all

lemma publishOperation_renders:
  assumes "generatePrefixStringTemplate delim scope = Some template"
  shows "publishOperation comment delim frugal scope (variableArgs (Variables (Prefix scope))) op =
         Some (renderMethod (publishMethod comment frugal scope template op))"
  by (simp add: publishOperation_def renderMethod_def assms publishMethod_def
      variableArgs_params [symmetric] render_topicStatements render_publishStatements
      renderBlock_append)

lemma publishOperations_render:
  assumes "generatePrefixStringTemplate delim scope = Some template"
  shows "publishOperations comment delim frugal scope (variableArgs (Variables (Prefix scope)))
           prefix ops =
         Some (if ops = [] then []
               else prefix @ renderMethods (map (publishMethod comment frugal scope template) ops))"
proof (induction ops arbitrary: prefix)
  case Nil
  show ?case by simp
next
  case (Cons op ops)
  show ?case
    using Cons.IH [of "nl @ nl"]
    by (cases ops) (simp_all add: publishOperation_renders [OF assms])
qed

lemma GeneratePublisher_renders:
  assumes "generatePrefixStringTemplate delim scope = Some template"
  shows "GeneratePublisher comment delim frugal scope =
         Some (renderClass (publisherClass comment frugal scope template))"
  by (simp add: GeneratePublisher_def publishOperations_render [OF assms] renderClass_def
      publisherClass_def tabtab_def digit_def)

section \<open>Evaluation of the generated programs\<close>

lemma generatePrefixStringTemplate_shape:
  assumes "scopeShape delim scope s0 nss"
  shows "generatePrefixStringTemplate delim scope =
         Some (if String (Prefix scope) = [] then []
               else weave s0 (zip (map interpolation (Variables (Prefix scope))) (map snd nss)) @ delim)"
proof (cases "nss = []")
  case True
  with assms have "Variables (Prefix scope) = []" and "String (Prefix scope) = s0"
    and "CHR ''{'' \<notin> set s0"
    by (simp_all add: scopeShape_def braces_def plainPrefix_def)
  then show ?thesis
    by (simp add: generatePrefixStringTemplate_def True Template_plain)
next
  case False
  have "String (Prefix scope) \<noteq> []"
  proof -
    from False obtain p r where "nss = p # r" by (cases nss) auto
    with assms show ?thesis by (cases p) (simp add: scopeShape_def braces_def)
  qed
  with compiled_prefix [of scope s0 nss delim] assms False show ?thesis
    by (simp add: scopeShape_def)
qed

lemma interp_plain:
  "plainText s \<Longrightarrow> interp q look (s @ t) = map_option ((@) s) (interp q look t)"
proof (induction s)
  case Nil
  show ?case by (cases "interp q look t") simp_all
next
  case (Cons c s)
  then have "plainText s" and c: "c \<noteq> CHR ''$''" "c \<noteq> CHR 0x5C" "c \<noteq> quoteChar q"
    "c \<noteq> CHR 0x0A" "c \<noteq> CHR 0x0D"
    by (cases q; auto simp: plainText_def quoteChar_def)+
  with Cons.IH show ?case
    by (cases "interp q look t") simp_all
qed

lemma interp_hole:
  assumes "CHR ''}'' \<notin> set v" and "look v = Str x"
  shows "interp q look (interpolation v @ t) = map_option ((@) x) (interp q look t)"
proof -
  have "dropWhile (\<lambda>c. c \<noteq> CHR ''}'') (v @ CHR ''}'' # t) = CHR ''}'' # t"
    and "takeWhile (\<lambda>c. c \<noteq> CHR ''}'') (v @ CHR ''}'' # t) = v"
    using assms(1) by (induction v) auto
  then show ?thesis
    using assms(2)
    by (simp add: interpolation_def del: dropWhile_append1 dropWhile_append2
        takeWhile_append1 takeWhile_append2)
qed

lemma interp_weave:
  assumes "length vs = length segs" and "length xs = length segs"
    and "\<forall>(v, x)\<in>set (zip vs xs). look v = Str x \<and> CHR ''}'' \<notin> set v"
    and "plainText s0" and "list_all plainText segs" and "plainText d"
  shows "interp q look (weave s0 (zip (map interpolation vs) segs) @ d) =
         Some (weave s0 (zip xs segs) @ d)"
  using assms
proof (induction segs arbitrary: s0 vs xs)
  case Nil
  then show ?case using interp_plain [of "s0 @ d" q look "[]"] by (simp add: plainText_def)
next
  case (Cons s segs)
  from Cons.prems(1) obtain v vs' where vs: "vs = v # vs'" and lv: "length vs' = length segs"
    by (cases vs) auto
  from Cons.prems(2) obtain x xs' where xs: "xs = x # xs'" and lx: "length xs' = length segs"
    by (cases xs) auto
  from Cons.prems(3) have v: "look v = Str x" "CHR ''}'' \<notin> set v"
    and rest: "\<forall>(v, x)\<in>set (zip vs' xs'). look v = Str x \<and> CHR ''}'' \<notin> set v"
    by (auto simp: vs xs)
  from Cons.prems(5) have s: "plainText s" and segs: "list_all plainText segs" by simp_all
  have "interp q look (weave s (zip (map interpolation vs') segs) @ d) =
        Some (weave s (zip xs' segs) @ d)"
    by (rule Cons.IH [OF lv lx rest s segs Cons.prems(6)])
  then show ?case
    using Cons.prems(4) v by (simp add: vs xs interp_plain interp_hole)
qed

lemma map_of_rev_zip_None: "x \<notin> set vs \<Longrightarrow> map_of (rev (zip vs ys)) x = None"
  by (auto simp: map_of_eq_None_iff dest: set_zip_leftD)

lemma map_of_rev_zip_Some:
  "distinct vs \<Longrightarrow> (v, y) \<in> set (zip vs ys) \<Longrightarrow> map_of (rev (zip vs ys)) v = Some y"
proof -
  assume d: "distinct vs" and m: "(v, y) \<in> set (zip vs ys)"
  have "map fst (rev (zip vs ys)) = rev (take (min (length vs) (length ys)) vs)"
    by (metis rev_map map_fst_zip_take)
  then have "distinct (map fst (rev (zip vs ys)))"
    using d by simp
  moreover have "(v, y) \<in> set (rev (zip vs ys))" using m by simp
  ultimately show ?thesis by (rule map_of_is_SomeI)
qed

lemma not_local_zip: "x \<notin> set vs \<Longrightarrow> x \<notin> fst ` set (zip vs ys)"
  by (auto dest: set_zip_leftD)

lemma interp_plain_all:
  assumes "plainText s"
  shows "interp q look s = Some s"
proof -
  have "interp q look (s @ []) = map_option ((@) s) (interp q look [])"
    using assms by (rule interp_plain)
  then show ?thesis by (simp only: append_Nil2 interp.simps option.map)
qed

lemma interp_hole_end:
  assumes "CHR ''}'' \<notin> set v" and "look v = Str x"
  shows "interp q look (interpolation v) = Some x"
proof -
  have "interp q look (interpolation v @ []) = map_option ((@) x) (interp q look [])"
    using assms by (rule interp_hole)
  then show ?thesis by (simp only: append_Nil2 interp.simps option.map)
qed

lemma wordChar_not_brace:
  assumes "list_all wordChar v"
  shows "CHR ''}'' \<notin> set v"
proof
  assume "CHR ''}'' \<in> set v"
  with assms have "wordChar (CHR ''}'')" by (simp add: list_all_iff)
  then show False by (simp add: wordChar_def)
qed

lemma validVariables_not_reserved:
  "validVariables vs \<Longrightarrow> x \<in> set reservedNames \<Longrightarrow> x \<notin> set vs"
  by (auto simp: validVariables_def list_all_iff)

lemma topicStatements_run:
  assumes shape: "scopeShape delim scope s0 nss"
    and name: "plainText (opName op)"
    and len: "length xs = length (Variables (Prefix scope))"
    and vars: "\<forall>(v, x)\<in>set (zip (Variables (Prefix scope)) xs). map_of (locals fr) v = Some (Str x)"
    and d1: "map_of (locals fr) ''delimiter'' = None"
    and d2: "map_of (members fr) ''delimiter'' = None"
    and d3: "map_of (toplevel fr) ''delimiter'' = Some (Str delim)"
    and t: "generatePrefixStringTemplate delim scope = Some template"
  shows "execs w (topicStatements scope template op @ rest) fr =
         execs w rest
           (fr\<lparr>locals := (''topic'', Str (topicValue delim scope s0 nss xs op)) #
                          (''prefix'', Str (prefixValue delim scope s0 nss xs)) #
                          (''op'', Str (opName op)) # locals fr\<rparr>)"
proof -
  let ?vs = "Variables (Prefix scope)"
  let ?fr1 = "fr\<lparr>locals := (''op'', Str (opName op)) # locals fr\<rparr>"
  let ?fr2 = "fr\<lparr>locals := (''prefix'', Str (prefixValue delim scope s0 nss xs)) #
                (''op'', Str (opName op)) # locals fr\<rparr>"
  from shape have valid: "validVariables ?vs" and lenv: "length ?vs = length nss"
    and ps0: "plainText s0" and psegs: "list_all plainText (map snd nss)"
    and pd: "plainText delim" and pt: "plainText (Title (scopeName scope))"
    by (auto simp: scopeShape_def list_all_iff)
  have tmpl: "template = (if String (Prefix scope) = [] then []
      else weave s0 (zip (map interpolation ?vs) (map snd nss)) @ delim)"
    using generatePrefixStringTemplate_shape [OF shape] t by simp
  have look1: "\<forall>(v, x)\<in>set (zip ?vs xs). lookup ?fr1 v = Str x \<and> CHR ''}'' \<notin> set v"
  proof (clarify, intro conjI)
    fix v x assume vx: "(v, x) \<in> set (zip ?vs xs)"
    then have v: "v \<in> set ?vs" by (rule set_zip_leftD)
    with valid have "v \<noteq> ''op''" and w: "list_all wordChar v"
      by (auto simp: validVariables_def reservedNames_def list_all_iff)
    moreover from vars vx have "map_of (locals fr) v = Some (Str x)" by auto
    ultimately show "lookup ?fr1 v = Str x" by (simp add: lookup_def)
    from w show "CHR ''}'' \<notin> set v" by (rule wordChar_not_brace)
  qed
  have e1: "exec w (Decl ''op'' (StrLit Double (opName op))) fr = Some (Proceed ?fr1)"
    by (simp add: interp_plain_all [OF name])
  have p: "interp Double (lookup ?fr1) template = Some (prefixValue delim scope s0 nss xs)"
  proof (cases "String (Prefix scope) = []")
    case True
    then show ?thesis by (simp add: tmpl prefixValue_def)
  next
    case False
    have "interp Double (lookup ?fr1) (weave s0 (zip (map interpolation ?vs) (map snd nss)) @ delim) =
          Some (weave s0 (zip xs (map snd nss)) @ delim)"
      using lenv len look1 ps0 psegs pd by (intro interp_weave) simp_all
    with False show ?thesis by (simp add: tmpl prefixValue_def)
  qed
  have e2: "exec w (Decl ''prefix'' (StrLit Double template)) ?fr1 = Some (Proceed ?fr2)"
    using p by simp
  have l2: "lookup ?fr2 ''prefix'' = Str (prefixValue delim scope s0 nss xs)"
    "lookup ?fr2 ''op'' = Str (opName op)" "lookup ?fr2 ''delimiter'' = Str delim"
    using d1 d2 d3 by (simp_all add: lookup_def)
  have "interp Double (lookup ?fr2)
          (interpolation ''prefix'' @ Title (scopeName scope) @ interpolation ''delimiter'' @
           interpolation ''op'' @ []) =
        Some (topicValue delim scope s0 nss xs op)"
    using l2 pt by (simp add: interp_hole interp_hole_end interp_plain topicValue_def)
  then have e3: "exec w (Decl ''topic''
        (StrLit Double (''${prefix}'' @ Title (scopeName scope) @ ''${delimiter}${op}''))) ?fr2 =
      Some (Proceed (fr\<lparr>locals := (''topic'', Str (topicValue delim scope s0 nss xs op)) #
                          (''prefix'', Str (prefixValue delim scope s0 nss xs)) #
                          (''op'', Str (opName op)) # locals fr\<rparr>))"
    by (simp add: interpolation_def)
  show ?thesis
    unfolding topicStatements_def using e1 e2 e3 by simp
qed

lemma bindParams_publish:
  "length xs = length vs \<Longrightarrow>
   bindParams (map (\<lambda>v. (''String'', v)) vs @ [(t, ''req'')]) (map Str xs @ [req]) =
   (''req'', req) # rev (zip vs (map Str xs))"
  by (simp add: bindParams_def comp_def)

lemma zip_Str: "(v, x) \<in> set (zip vs xs) \<Longrightarrow> (v, Str x) \<in> set (zip vs (map Str xs))"
  by (auto simp: zip_map2)

lemma publishStatements_run:
  assumes vs: "\<forall>x \<in> set reservedNames. x \<notin> set vs"
  shows "execs w publishStatements
           \<lparr>locals = (''topic'', Str topic) # (''prefix'', Str pfx) # (''op'', Str name) #
                      (''req'', req) # rev (zip vs ys),
            members = [(''transport'', T), (''protocol'', P), (''seqId'', Num n)],
            toplevel = [(''delimiter'', Str delim)], trace = tr\<rparr> =
         Some (Returned (w (tr @ publishEvents T P topic name (n + 1) req))
           \<lparr>locals = (''msg'', Instance ''thrift.TMessage''
                        [Str name, Part (Part (Global ''thrift'') ''TMessageType'') ''CALL'',
                         Num (n + 1)]) #
                      (''oprot'', P) # (''topic'', Str topic) # (''prefix'', Str pfx) #
                      (''op'', Str name) # (''req'', req) # rev (zip vs ys),
            members = [(''transport'', T), (''protocol'', P), (''seqId'', Num (n + 1))],
            toplevel = [(''delimiter'', Str delim)], trace = tr @ publishEvents T P topic name (n + 1) req\<rparr>)"
proof -
  from vs have none: "map_of (rev (zip vs ys)) ''transport'' = None"
    "map_of (rev (zip vs ys)) ''protocol'' = None"
    "map_of (rev (zip vs ys)) ''seqId'' = None"
    "map_of (rev (zip vs ys)) ''thrift'' = None"
    and nl: "''seqId'' \<notin> fst ` set (zip vs ys)"
    by (simp_all add: reservedNames_def map_of_rev_zip_None not_local_zip)
  show ?thesis
    using none nl
    by (simp add: publishStatements_def lookup_def assign_def publishEvents_def)
qed

lemma call_publishMethod:
  assumes shape: "scopeShape delim scope s0 nss"
    and name: "plainText (opName op)"
    and len: "length xs = length (Variables (Prefix scope))"
    and t: "generatePrefixStringTemplate delim scope = Some template"
  shows "call w (publishMethod comment frugal scope template op) (map Str xs @ [req])
           (publisherState T P n delim tr) =
         Some (Returned
           (w (tr @ publishEvents T P (topicValue delim scope s0 nss xs op) (opName op) (n + 1) req))
           (publisherState T P (n + 1) delim
              (tr @ publishEvents T P (topicValue delim scope s0 nss xs op) (opName op) (n + 1) req)))"
proof -
  let ?vs = "Variables (Prefix scope)"
  let ?L = "(''req'', req) # rev (zip ?vs (map Str xs))"
  let ?fr = "\<lparr>locals = ?L,
             members = [(''transport'', T), (''protocol'', P), (''seqId'', Num n)],
             toplevel = [(''delimiter'', Str delim)], trace = tr\<rparr>"
  from shape have valid: "validVariables ?vs" by (simp add: scopeShape_def)
  then have res: "\<forall>x \<in> set reservedNames. x \<notin> set ?vs" and dist: "distinct ?vs"
    by (auto simp: validVariables_def list_all_iff)
  have vars: "\<forall>(v, x)\<in>set (zip ?vs xs). map_of (locals ?fr) v = Some (Str x)"
  proof clarify
    fix v x assume vx: "(v, x) \<in> set (zip ?vs xs)"
    then have "v \<in> set ?vs" by (rule set_zip_leftD)
    with res have "v \<noteq> ''req''" by (auto simp: reservedNames_def)
    moreover have "map_of (rev (zip ?vs (map Str xs))) v = Some (Str x)"
      using dist zip_Str [OF vx] by (rule map_of_rev_zip_Some)
    ultimately show "map_of (locals ?fr) v = Some (Str x)" by simp
  qed
  from res have "''delimiter'' \<notin> set ?vs" by (simp add: reservedNames_def)
  then have d1: "map_of (locals ?fr) ''delimiter'' = None"
    by (simp add: map_of_rev_zip_None)
  have d2: "map_of (members ?fr) ''delimiter'' = None" by simp
  have d3: "map_of (toplevel ?fr) ''delimiter'' = Some (Str delim)" by simp
  have run: "execs w (topicStatements scope template op @ publishStatements) ?fr =
        execs w publishStatements
          (?fr\<lparr>locals := (''topic'', Str (topicValue delim scope s0 nss xs op)) #
                    (''prefix'', Str (prefixValue delim scope s0 nss xs)) #
                    (''op'', Str (opName op)) # locals ?fr\<rparr>)"
    using shape name len vars d1 d2 d3 t by (rule topicStatements_run)
  have "execs w (topicStatements scope template op @ publishStatements) ?fr =
        Some (Returned
          (w (tr @ publishEvents T P (topicValue delim scope s0 nss xs op) (opName op) (n + 1) req))
          \<lparr>locals = (''msg'', Instance ''thrift.TMessage''
                        [Str (opName op), Part (Part (Global ''thrift'') ''TMessageType'') ''CALL'',
                         Num (n + 1)]) #
                      (''oprot'', P) # (''topic'', Str (topicValue delim scope s0 nss xs op)) #
                      (''prefix'', Str (prefixValue delim scope s0 nss xs)) #
                      (''op'', Str (opName op)) # (''req'', req) # rev (zip ?vs (map Str xs)),
            members = [(''transport'', T), (''protocol'', P), (''seqId'', Num (n + 1))],
            toplevel = [(''delimiter'', Str delim)],
            trace = tr @ publishEvents T P (topicValue delim scope s0 nss xs op) (opName op)
                      (n + 1) req\<rparr>)"
    unfolding run using publishStatements_run [OF res, of w _ _ _ req "map Str xs" T P n delim tr]
    by simp
  then show ?thesis
    using len
    by (simp add: call_def publishMethod_def publisherState_def bindParams_publish leave_def)
qed

lemma find_publishMethod:
  "op \<in> set ops \<Longrightarrow>
   \<exists>op'\<in>set ops. opName op' = opName op \<and>
     find (\<lambda>m. mName m = ''publish'' @ opName op) (map (publishMethod comment frugal scope template) ops) =
     Some (publishMethod comment frugal scope template op')"
proof (induction ops)
  case Nil
  then show ?case by simp
next
  case (Cons a ops)
  show ?case
  proof (cases "opName a = opName op")
    case True
    then show ?thesis by (auto simp: publishMethod_def)
  next
    case False
    with Cons.prems have "op \<in> set ops" by auto
    from Cons.IH [OF this] False show ?thesis by (auto simp: publishMethod_def)
  qed
qed

lemma invoke_publish:
  assumes shape: "scopeShape delim scope s0 nss"
    and mem: "op \<in> set (Operations scope)"
    and name: "plainText (opName op)"
    and len: "length xs = length (Variables (Prefix scope))"
    and t: "generatePrefixStringTemplate delim scope = Some template"
  shows "invoke w (publisherClass comment frugal scope template) (''publish'' @ opName op)
           (map Str xs @ [req]) (publisherState T P n delim tr) =
         Some (Returned
           (w (tr @ publishEvents T P (topicValue delim scope s0 nss xs op) (opName op) (n + 1) req))
           (publisherState T P (n + 1) delim
              (tr @ publishEvents T P (topicValue delim scope s0 nss xs op) (opName op) (n + 1) req)))"
proof -
  from find_publishMethod [OF mem, of comment frugal scope template]
  obtain op' where eq: "opName op' = opName op"
    and f: "find (\<lambda>m. mName m = ''publish'' @ opName op)
              (map (publishMethod comment frugal scope template) (Operations scope)) =
            Some (publishMethod comment frugal scope template op')"
    by blast
  have name': "plainText (opName op')" using name eq by simp
  have topic: "topicValue delim scope s0 nss xs op' = topicValue delim scope s0 nss xs op"
    by (simp add: topicValue_def eq)
  have "invoke w (publisherClass comment frugal scope template) (''publish'' @ opName op)
           (map Str xs @ [req]) (publisherState T P n delim tr) =
        call w (publishMethod comment frugal scope template op') (map Str xs @ [req])
           (publisherState T P n delim tr)"
    unfolding invoke_def publisherClass_def dartClass.select_convs f by simp
  also have "\<dots> = Some (Returned
           (w (tr @ publishEvents T P (topicValue delim scope s0 nss xs op') (opName op') (n + 1) req))
           (publisherState T P (n + 1) delim
              (tr @ publishEvents T P (topicValue delim scope s0 nss xs op') (opName op') (n + 1) req)))"
    using shape name' len t by (rule call_publishMethod)
  finally show ?thesis by (simp only: eq topic)
qed

lemma construct_publisher:
  "construct w [(''delimiter'', Str delim)] (publisherClass comment frugal scope template)
     [provider] tr =
   Some (Returned Null
     (publisherState
        (select (w (tr @ [Call provider ''newTransportProtocol'' []])) ''transport'')
        (select (w (tr @ [Call provider ''newTransportProtocol'' []])) ''protocol'')
        0 delim (tr @ [Call provider ''newTransportProtocol'' []])))"
  by (simp add: construct_def publisherClass_def bindParams_def lookup_def assign_def leave_def
      publisherState_def)

lemma invokeAll_publish:
  assumes shape: "scopeShape delim scope s0 nss"
    and t: "generatePrefixStringTemplate delim scope = Some template"
  shows "\<forall>(op, xs, req)\<in>set cs. op \<in> set (Operations scope) \<and> plainText (opName op) \<and>
             length xs = length (Variables (Prefix scope)) \<Longrightarrow>
         invokeAll w (publisherClass comment frugal scope template) (map publishCall cs)
           (publisherState T P n delim tr) =
         Some (publisherState T P (n + int (length cs)) delim
                 (tr @ publishTrace T P delim scope s0 nss n cs))"
proof (induction cs arbitrary: n tr)
  case Nil
  show ?case by simp
next
  case (Cons c cs)
  obtain op xs req where c: "c = (op, xs, req)" by (cases c)
  from Cons.prems c have mem: "op \<in> set (Operations scope)" and name: "plainText (opName op)"
    and len: "length xs = length (Variables (Prefix scope))"
    and rest: "\<forall>(op, xs, req)\<in>set cs. op \<in> set (Operations scope) \<and> plainText (opName op) \<and>
             length xs = length (Variables (Prefix scope))"
    by auto
  have ih: "invokeAll w (publisherClass comment frugal scope template) (map publishCall cs)
           (publisherState T P (n + 1) delim
              (tr @ publishEvents T P (topicValue delim scope s0 nss xs op) (opName op) (n + 1) req)) =
         Some (publisherState T P (n + 1 + int (length cs)) delim
                 ((tr @ publishEvents T P (topicValue delim scope s0 nss xs op) (opName op) (n + 1) req) @
                  publishTrace T P delim scope s0 nss (n + 1) cs))"
    by (rule Cons.IH [OF rest])
  have step: "invokeAll w (publisherClass comment frugal scope template)
          (map publishCall (c # cs)) (publisherState T P n delim tr) =
        invokeAll w (publisherClass comment frugal scope template) (map publishCall cs)
           (publisherState T P (n + 1) delim
              (tr @ publishEvents T P (topicValue delim scope s0 nss xs op) (opName op) (n + 1) req))"
    unfolding c list.map publishCall_def prod.case invokeAll.simps
      invoke_publish [OF shape mem name len t]
    by simp
  have k: "n + 1 + int (length cs) = n + int (length (c # cs))" by simp
  show ?case
    unfolding step ih k by (simp add: c)
qed

lemma sequenceNumbers_append:
  "sequenceNumbers (a @ b) = sequenceNumbers a @ sequenceNumbers b"
  by (simp add: sequenceNumbers_def map_filter_def)

lemma sequenceNumbers_publishEvents:
  "sequenceNumbers (publishEvents T P topic name k req) = [k]"
  by (simp add: sequenceNumbers_def map_filter_def publishEvents_def sequenceNumber_def)

lemma sequenceNumbers_publishTrace:
  "sequenceNumbers (publishTrace T P delim scope s0 nss k cs) =
   map (\<lambda>i. k + int i) [1..<Suc (length cs)]"
proof (induction cs arbitrary: k)
  case Nil
  show ?case by (simp add: sequenceNumbers_def map_filter_def)
next
  case (Cons c cs)
  obtain op xs req where c: "c = (op, xs, req)" by (cases c)
  have "[1..<Suc (Suc (length cs))] = 1 # map Suc [1..<Suc (length cs)]"
    by (simp only: map_Suc_upt) (simp add: upt_conv_Cons del: upt_Suc)
  then have "map (\<lambda>i. k + int i) [1..<Suc (Suc (length cs))] =
        (k + 1) # map (\<lambda>i. k + 1 + int i) [1..<Suc (length cs)]"
    by (simp add: comp_def add.assoc add.commute del: upt_Suc)
  then show ?case
    by (simp add: c sequenceNumbers_append sequenceNumbers_publishEvents Cons.IH del: upt_Suc)
qed

lemma render_recvMethod:
  "renderMethod (recvMethod frugal op) =
     tab @ qualifiedParamName frugal op @ '' _recv'' @ opName op @
       ''(String op, thrift.TProtocol iprot) {'' @ nl @
     tabtab @ ''var tMsg = iprot.readMessageBegin();'' @ nl @
     tabtab @ ''if (tMsg.name != op) {'' @ nl @
     tabtabtab @ ''thrift.TProtocolUtil.skip(iprot, thrift.TType.STRUCT);'' @ nl @
     tabtabtab @ ''iprot.readMessageEnd();'' @ nl @
     tabtabtab @ ''throw new thrift.TApplicationError('' @ nl @
     tabtabtab @ ''thrift.TApplicationErrorType.UNKNOWN_METHOD, tMsg.name);'' @ nl @
     tabtab @ ''}'' @ nl @
     tabtab @ ''var req = new '' @ qualifiedParamName frugal op @ ''();'' @ nl @
     tabtab @ ''req.read(iprot);'' @ nl @
     tabtab @ ''iprot.readMessageEnd();'' @ nl @
     tabtab @ ''return req;'' @ nl @
     tab @ ''}'' @ nl"
  by (simp add: renderMethod_def recvMethod_def tabtab_def tabtabtab_def)

lemma subscribeOperation_renders:
  assumes "generatePrefixStringTemplate delim scope = Some template"
  shows "subscribeOperation comment delim frugal scope (variableArgs (Variables (Prefix scope))) op =
         Some (subscribeText comment frugal scope template op @ renderMethod (recvMethod frugal op))"
  unfolding render_recvMethod
  by (simp add: subscribeOperation_def assms subscribeText_def render_topicStatements)

lemma call_recvMethod:
  "call w (recvMethod frugal op) [Str expected, iprot] (subscriberState provider delim tr) =
   (let msg = w (tr @ [Call iprot ''readMessageBegin'' []]) in
    if select msg ''name'' \<noteq> Str expected then
      Some (Thrown
        (Instance ''thrift.TApplicationError''
           [Part (Part (Global ''thrift'') ''TApplicationErrorType'') ''UNKNOWN_METHOD'',
            select msg ''name''])
        (subscriberState provider delim
           (tr @ [Call iprot ''readMessageBegin'' [],
                  Call (Part (Global ''thrift'') ''TProtocolUtil'') ''skip''
                    [iprot, Part (Part (Global ''thrift'') ''TType'') ''STRUCT''],
                  Call iprot ''readMessageEnd'' []])))
    else
      Some (Returned (Instance (qualifiedParamName frugal op) [])
        (subscriberState provider delim
           (tr @ [Call iprot ''readMessageBegin'' [],
                  Call (Instance (qualifiedParamName frugal op) []) ''read'' [iprot],
                  Call iprot ''readMessageEnd'' []]))))"
  by (simp add: call_def recvMethod_def subscriberState_def bindParams_def lookup_def leave_def
      Let_def)

lemma GenerateConstants_renders:
  "GenerateConstants delim = renderConstant (delimiterConstant delim)"
  by (simp add: GenerateConstants_def renderConstant_def delimiterConstant_def quoteChar_def sq_def)

lemma delimiter_value:
  "plainText delim \<Longrightarrow> constantValue (delimiterConstant delim) = Some (''delimiter'', Str delim)"
  by (simp add: constantValue_def delimiterConstant_def interp_plain_all)

lemma topicStatements_value:
  assumes shape: "scopeShape delim scope s0 nss"
    and name: "plainText (opName op)"
    and len: "length xs = length (Variables (Prefix scope))"
    and t: "generatePrefixStringTemplate delim scope = Some template"
    and last: "p \<notin> set (Variables (Prefix scope))" "p \<noteq> ''delimiter''"
    and mem: "map_of ms ''delimiter'' = None"
  shows "\<exists>fr. execs w (topicStatements scope template op)
           \<lparr>locals = bindParams (map (\<lambda>v. (''String'', v)) (Variables (Prefix scope)) @ [(ty, p)])
                       (map Str xs @ [a]),
            members = ms, toplevel = [(''delimiter'', Str delim)], trace = tr\<rparr> = Some (Proceed fr)
          \<and> lookup fr ''topic'' = Str (topicValue delim scope s0 nss xs op)
          \<and> trace fr = tr"
proof -
  let ?vs = "Variables (Prefix scope)"
  let ?L = "(p, a) # rev (zip ?vs (map Str xs))"
  let ?fr = "\<lparr>locals = ?L, members = ms, toplevel = [(''delimiter'', Str delim)], trace = tr\<rparr>"
  have b: "bindParams (map (\<lambda>v. (''String'', v)) ?vs @ [(ty, p)]) (map Str xs @ [a]) = ?L"
    using len by (simp add: bindParams_def comp_def)
  from shape have valid: "validVariables ?vs" by (simp add: scopeShape_def)
  then have res: "\<forall>x \<in> set reservedNames. x \<notin> set ?vs" and dist: "distinct ?vs"
    by (auto simp: validVariables_def list_all_iff)
  have vars: "\<forall>(v, x)\<in>set (zip ?vs xs). map_of (locals ?fr) v = Some (Str x)"
  proof clarify
    fix v x assume vx: "(v, x) \<in> set (zip ?vs xs)"
    then have "v \<in> set ?vs" by (rule set_zip_leftD)
    with last(1) have "v \<noteq> p" by auto
    moreover have "map_of (rev (zip ?vs (map Str xs))) v = Some (Str x)"
      using dist zip_Str [OF vx] by (rule map_of_rev_zip_Some)
    ultimately show "map_of (locals ?fr) v = Some (Str x)" by simp
  qed
  from res have "''delimiter'' \<notin> set ?vs" by (simp add: reservedNames_def)
  then have d1: "map_of (locals ?fr) ''delimiter'' = None"
    using last(2) by (simp add: map_of_rev_zip_None)
  have d2: "map_of (members ?fr) ''delimiter'' = None" using mem by simp
  have d3: "map_of (toplevel ?fr) ''delimiter'' = Some (Str delim)" by simp
  have "execs w (topicStatements scope template op @ []) ?fr =
        execs w []
          (?fr\<lparr>locals := (''topic'', Str (topicValue delim scope s0 nss xs op)) #
                    (''prefix'', Str (prefixValue delim scope s0 nss xs)) #
                    (''op'', Str (opName op)) # locals ?fr\<rparr>)"
    using shape name len vars d1 d2 d3 t by (rule topicStatements_run)
  then show ?thesis
    unfolding b by (simp add: lookup_def)
qed

subsection \<open>The scope \<open>Events\<close>\<close>

lemma eventsScope_shape:
  assumes "plainText delim" and "CHR ''%'' \<notin> set delim"
  shows "scopeShape delim eventsScope ''user.'' [(''id'', [])]"
  using assms
  by (simp add: scopeShape_def eventsScope_def braces_def plainPrefix_def validVariables_def
      wordChar_def reservedNames_def plainText_def Title_def isSeparator_def upperChar_def)

lemma Sprintf_plain_all:
  assumes "CHR ''%'' \<notin> set s"
  shows "Sprintf s [] = Some s"
proof -
  have "Sprintf (s @ []) [] = map_option ((@) s) (Sprintf [] [])"
    using assms by (rule Sprintf_plain)
  then show ?thesis by (simp add: extraString_def)
qed

lemma eventsScope_template:
  assumes "CHR ''%'' \<notin> set delim"
  shows "generatePrefixStringTemplate delim eventsScope = Some (''user.${id}'' @ delim)"
  using assms
  by (simp add: generatePrefixStringTemplate_def eventsScope_def interpolation_def wordChar_def
      Sprintf_plain_all)

lemma eventsScope_values:
  "prefixValue delim eventsScope ''user.'' [(''id'', [])] [x] = ''user.'' @ x @ delim"
  "Title (scopeName eventsScope) = ''Events''"
  "opName createdOperation = ''Created''"
  "Variables (Prefix eventsScope) = [''id'']"
  "createdOperation \<in> set (Operations eventsScope)"
  by (simp_all add: prefixValue_def eventsScope_def createdOperation_def Title_def
      isSeparator_def upperChar_def wordChar_def)

section \<open>The receive routine of the subscriber\<close>

text \<open>
  C3. The text of an operation in the subscriber ends with the receive method, and that
  method, called with the expected name and a protocol, reads the envelope's header and
  then: when the name of the message is not the expected one, it skips a struct on the
  protocol, closes the envelope and throws \<open>TApplicationError\<close> with
  \<open>UNKNOWN_METHOD\<close> and the name received, and no \<open>read\<close> of a parameter happens;
  when the names are equal, it makes a new instance of the qualified parameter type,
  reads it from the protocol, closes the envelope and returns the instance.
\<close>

theorem recv_rejects_other_names:
  "(generatePrefixStringTemplate delim scope = Some template \<longrightarrow>
      subscribeOperation comment delim frugal scope (variableArgs (Variables (Prefix scope))) op =
      Some (subscribeText comment frugal scope template op @ renderMethod (recvMethod frugal op)))
   \<and> (select (w (tr @ [Call iprot ''readMessageBegin'' []])) ''name'' \<noteq> Str expected \<longrightarrow>
      call w (recvMethod frugal op) [Str expected, iprot] (subscriberState provider delim tr) =
      Some (Thrown
        (Instance ''thrift.TApplicationError''
           [Part (Part (Global ''thrift'') ''TApplicationErrorType'') ''UNKNOWN_METHOD'',
            select (w (tr @ [Call iprot ''readMessageBegin'' []])) ''name''])
        (subscriberState provider delim
           (tr @ [Call iprot ''readMessageBegin'' [],
                  Call (Part (Global ''thrift'') ''TProtocolUtil'') ''skip''
                    [iprot, Part (Part (Global ''thrift'') ''TType'') ''STRUCT''],
                  Call iprot ''readMessageEnd'' []]))))
   \<and> (select (w (tr @ [Call iprot ''readMessageBegin'' []])) ''name'' = Str expected \<longrightarrow>
      call w (recvMethod frugal op) [Str expected, iprot] (subscriberState provider delim tr) =
      Some (Returned (Instance (qualifiedParamName frugal op) [])
        (subscriberState provider delim
           (tr @ [Call iprot ''readMessageBegin'' [],
                  Call (Instance (qualifiedParamName frugal op) []) ''read'' [iprot],
                  Call iprot ''readMessageEnd'' []]))))"
  by (simp add: subscribeOperation_renders call_recvMethod Let_def)

theorem recv_rejects_other_names_witness:
  "subscribeOperation noComment ''.'' eventsSchema eventsScope ''String id, '' createdOperation =
     Some (subscribeText noComment eventsSchema eventsScope ''user.${id}.'' createdOperation @
           renderMethod (recvMethod eventsSchema createdOperation))
   \<and> call (answering (Instance ''thrift.TMessage'' [Str ''Other'', Num 1, Num 7]))
       (recvMethod eventsSchema createdOperation) [Str ''Created'', Global ''iprot'']
       (subscriberState (Global ''provider'') ''.'' []) =
     Some (Thrown
        (Instance ''thrift.TApplicationError''
           [Part (Part (Global ''thrift'') ''TApplicationErrorType'') ''UNKNOWN_METHOD'',
            Str ''Other''])
        (subscriberState (Global ''provider'') ''.''
           [Call (Global ''iprot'') ''readMessageBegin'' [],
            Call (Part (Global ''thrift'') ''TProtocolUtil'') ''skip''
              [Global ''iprot'', Part (Part (Global ''thrift'') ''TType'') ''STRUCT''],
            Call (Global ''iprot'') ''readMessageEnd'' []]))
   \<and> call (answering (Instance ''thrift.TMessage'' [Str ''Created'', Num 1, Num 7]))
       (recvMethod eventsSchema createdOperation) [Str ''Created'', Global ''iprot'']
       (subscriberState (Global ''provider'') ''.'' []) =
     Some (Returned (Instance ''t_userevent.UserEvent'' [])
        (subscriberState (Global ''provider'') ''.''
           [Call (Global ''iprot'') ''readMessageBegin'' [],
            Call (Instance ''t_userevent.UserEvent'' []) ''read'' [Global ''iprot''],
            Call (Global ''iprot'') ''readMessageEnd'' []]))"
proof -
  have t: "generatePrefixStringTemplate ''.'' eventsScope = Some ''user.${id}.''"
    by (simp add: generatePrefixStringTemplate_def eventsScope_def interpolation_def wordChar_def
        extraString_def)
  have v: "variableArgs (Variables (Prefix eventsScope)) = ''String id, ''"
    by (simp add: variableArgs_def eventsScope_def)
  have q: "qualifiedParamName eventsSchema createdOperation = ''t_userevent.UserEvent''"
    by (simp add: qualifiedParamName_def createdOperation_def ToLower_def lowerChar_def)
  show ?thesis
    using
      recv_rejects_other_names [of "''.''" eventsScope "''user.${id}.''" noComment eventsSchema
        createdOperation]
      recv_rejects_other_names [of "''.''" eventsScope "''user.${id}.''" noComment eventsSchema
        createdOperation
        "answering (Instance ''thrift.TMessage'' [Str ''Other'', Num 1, Num 7])" "[]"
        "Global ''iprot''" "''Created''" "Global ''provider''"]
      recv_rejects_other_names [of "''.''" eventsScope "''user.${id}.''" noComment eventsSchema
        createdOperation
        "answering (Instance ''thrift.TMessage'' [Str ''Created'', Num 1, Num 7])" "[]"
        "Global ''iprot''" "''Created''" "Global ''provider''"]
    by (simp add: t v q answering_def)
qed

section \<open>The publish methods\<close>

text \<open>
  C6. For a scope whose prefix is well formed, the publisher text is the class
  \<open>publisherClass\<close>, and a call of the publish method of an operation computes the topic
  (compiled prefix with the variables' values, capitalized scope name, delimiter,
  operation name), tells the transport about it, increments the counter, writes the
  envelope of a call with the incremented counter, writes the request, closes the envelope
  and flushes the transport, in this order; what the flush returns is the result.
\<close>

theorem publish_method_steps:
  assumes "scopeShape delim scope s0 nss"
    and "op \<in> set (Operations scope)"
    and "plainText (opName op)"
    and "length xs = length (Variables (Prefix scope))"
  shows "\<exists>template.
     generatePrefixStringTemplate delim scope = Some template
     \<and> GeneratePublisher comment delim frugal scope =
         Some (renderClass (publisherClass comment frugal scope template))
     \<and> GenerateConstants delim = renderConstant (delimiterConstant delim)
     \<and> constantValue (delimiterConstant delim) = Some (''delimiter'', Str delim)
     \<and> invoke w (publisherClass comment frugal scope template) (''publish'' @ opName op)
         (map Str xs @ [req]) (publisherState T P n delim tr) =
       Some (Returned
         (w (tr @
             [Call T ''preparePublish''
                [Str (prefixValue delim scope s0 nss xs @ Title (scopeName scope) @ delim @
                      opName op)],
              Call P ''writeMessageBegin''
                [Instance ''thrift.TMessage''
                   [Str (opName op), Part (Part (Global ''thrift'') ''TMessageType'') ''CALL'',
                    Num (n + 1)]],
              Call req ''write'' [P],
              Call P ''writeMessageEnd'' [],
              Call (select P ''transport'') ''flush'' []]))
         (publisherState T P (n + 1) delim
            (tr @
             [Call T ''preparePublish''
                [Str (prefixValue delim scope s0 nss xs @ Title (scopeName scope) @ delim @
                      opName op)],
              Call P ''writeMessageBegin''
                [Instance ''thrift.TMessage''
                   [Str (opName op), Part (Part (Global ''thrift'') ''TMessageType'') ''CALL'',
                    Num (n + 1)]],
              Call req ''write'' [P],
              Call P ''writeMessageEnd'' [],
              Call (select P ''transport'') ''flush'' []])))"
proof -
  from generatePrefixStringTemplate_shape [OF assms(1)]
  obtain template where t: "generatePrefixStringTemplate delim scope = Some template"
    by blast
  from assms(1) have d: "plainText delim" by (simp add: scopeShape_def)
  have "invoke w (publisherClass comment frugal scope template) (''publish'' @ opName op)
         (map Str xs @ [req]) (publisherState T P n delim tr) =
       Some (Returned
         (w (tr @ publishEvents T P (topicValue delim scope s0 nss xs op) (opName op) (n + 1) req))
         (publisherState T P (n + 1) delim
            (tr @ publishEvents T P (topicValue delim scope s0 nss xs op) (opName op) (n + 1) req)))"
    using assms t by (rule invoke_publish)
  then show ?thesis
    using t GeneratePublisher_renders [OF t] GenerateConstants_renders delimiter_value [OF d]
    unfolding publishEvents_def topicValue_def by blast
qed

theorem publish_method_steps_witness:
  "generatePrefixStringTemplate ''.'' eventsScope = Some ''user.${id}.''
   \<and> GeneratePublisher noComment ''.'' eventsSchema eventsScope =
       Some (renderClass (publisherClass noComment eventsSchema eventsScope ''user.${id}.''))
   \<and> invoke silent (publisherClass noComment eventsSchema eventsScope ''user.${id}.'')
       ''publishCreated'' [Str ''42'', Global ''event''] 
       (publisherState (Global ''transport'') (Global ''protocol'') 0 ''.'' []) =
     Some (Returned Null
       (publisherState (Global ''transport'') (Global ''protocol'') 1 ''.''
          [Call (Global ''transport'') ''preparePublish'' [Str ''user.42.Events.Created''],
           Call (Global ''protocol'') ''writeMessageBegin''
             [Instance ''thrift.TMessage''
                [Str ''Created'', Part (Part (Global ''thrift'') ''TMessageType'') ''CALL'', Num 1]],
           Call (Global ''event'') ''write'' [Global ''protocol''],
           Call (Global ''protocol'') ''writeMessageEnd'' [],
           Call (Part (Global ''protocol'') ''transport'') ''flush'' []]))"
proof -
  have shape: "scopeShape ''.'' eventsScope ''user.'' [(''id'', [])]"
    by (rule eventsScope_shape) (simp_all add: plainText_def)
  have mem: "createdOperation \<in> set (Operations eventsScope)"
    by (rule eventsScope_values)
  have name: "plainText (opName createdOperation)"
    by (simp add: eventsScope_values plainText_def)
  have len: "length [''42''] = length (Variables (Prefix eventsScope))"
    by (simp add: eventsScope_values)
  have t: "generatePrefixStringTemplate ''.'' eventsScope = Some ''user.${id}.''"
    using eventsScope_template [of "''.''"] by simp
  show ?thesis
    using publish_method_steps [OF shape mem name len, of noComment eventsSchema silent
        "Global ''event''" "Global ''transport''" "Global ''protocol''" 0 "[]"]
    by (simp add: t eventsScope_values silent_def)
qed

section \<open>The scenario of the scope \<open>Events\<close>\<close>

text \<open>
  C2, which fails as it is stated: with the delimiter \<open>.\<close> and the value \<open>42\<close> of
  \<open>id\<close>, the topic is \<open>user.42.Events.Created\<close>; the compiled prefix ends with one
  delimiter, and there is no further \<open>.\<close> in front of it.
\<close>

theorem events_topic_as_claimed_fails:
  "invoke silent (publisherClass noComment eventsSchema eventsScope ''user.${id}.'')
     ''publishCreated'' [Str ''42'', Global ''event'']
     (publisherState (Global ''transport'') (Global ''protocol'') 0 ''.'' []) =
   Some (Returned Null
     (publisherState (Global ''transport'') (Global ''protocol'') 1 ''.''
        (publishEvents (Global ''transport'') (Global ''protocol'') ''user.42.Events.Created''
           ''Created'' 1 (Global ''event''))))
   \<and> ''user.42.Events.Created'' \<noteq> ''user.'' @ ''42'' @ ''.'' @ ''.'' @ ''Events'' @ ''.'' @ ''Created''
   \<and> GeneratePublisher noComment ''.'' eventsSchema eventsScope =
       Some (renderClass (publisherClass noComment eventsSchema eventsScope ''user.${id}.''))
   \<and> constantValue (delimiterConstant ''.'') = Some (''delimiter'', Str ''.'')"
proof -
  have shape: "scopeShape ''.'' eventsScope ''user.'' [(''id'', [])]"
    by (rule eventsScope_shape) (simp_all add: plainText_def)
  have name: "plainText (opName createdOperation)"
    by (simp add: eventsScope_values plainText_def)
  have len: "length [''42''] = length (Variables (Prefix eventsScope))"
    by (simp add: eventsScope_values)
  have t: "generatePrefixStringTemplate ''.'' eventsScope = Some ''user.${id}.''"
    using eventsScope_template [of "''.''"] by simp
  have topic: "topicValue ''.'' eventsScope ''user.'' [(''id'', [])] [''42''] createdOperation =
      ''user.42.Events.Created''"
    by (simp add: topicValue_def eventsScope_values)
  have "invoke silent (publisherClass noComment eventsSchema eventsScope ''user.${id}.'')
     (''publish'' @ opName createdOperation) (map Str [''42''] @ [Global ''event''])
     (publisherState (Global ''transport'') (Global ''protocol'') 0 ''.'' []) =
   Some (Returned
     (silent ([] @ publishEvents (Global ''transport'') (Global ''protocol'')
        (topicValue ''.'' eventsScope ''user.'' [(''id'', [])] [''42''] createdOperation)
           (opName createdOperation) (0 + 1) (Global ''event'')))
     (publisherState (Global ''transport'') (Global ''protocol'') (0 + 1) ''.''
        ([] @ publishEvents (Global ''transport'') (Global ''protocol'')
           (topicValue ''.'' eventsScope ''user.'' [(''id'', [])] [''42''] createdOperation)
           (opName createdOperation) (0 + 1) (Global ''event''))))"
    using shape eventsScope_values(5) name len t by (rule invoke_publish)
  then have 1: "invoke silent (publisherClass noComment eventsSchema eventsScope ''user.${id}.'')
     ''publishCreated'' [Str ''42'', Global ''event'']
     (publisherState (Global ''transport'') (Global ''protocol'') 0 ''.'' []) =
   Some (Returned Null
     (publisherState (Global ''transport'') (Global ''protocol'') 1 ''.''
        (publishEvents (Global ''transport'') (Global ''protocol'') ''user.42.Events.Created''
           ''Created'' 1 (Global ''event''))))"
    by (simp add: topic eventsScope_values silent_def)
  have 2: "''user.42.Events.Created'' \<noteq> ''user.'' @ ''42'' @ ''.'' @ ''.'' @ ''Events'' @ ''.'' @ ''Created''"
    by simp
  have 3: "constantValue (delimiterConstant ''.'') = Some (''delimiter'', Str ''.'')"
    by (rule delimiter_value) (simp add: plainText_def)
  from 1 2 3 GeneratePublisher_renders [OF t] show ?thesis by blast
qed

text \<open>
  C2, amended. For the scope \<open>Events\<close> with the prefix \<open>user.{id}\<close>, the publish method
  of \<open>Created\<close> computes the topic \<open>"user." + id + delimiter + "Events" + delimiter +
  "Created"\<close>, and the parameter is \<open>t_userevent.UserEvent\<close>: the alias comes from the
  lower-cased name of the parameter type.
\<close>

theorem events_scenario:
  assumes "plainText delim" and "CHR ''%'' \<notin> set delim"
  shows "qualifiedParamName frugal createdOperation = ''t_userevent.UserEvent''
    \<and> generatePrefixStringTemplate delim eventsScope = Some (''user.${id}'' @ delim)
    \<and> GeneratePublisher comment delim frugal eventsScope =
        Some (renderClass (publisherClass comment frugal eventsScope (''user.${id}'' @ delim)))
    \<and> params (publishMethod comment frugal eventsScope (''user.${id}'' @ delim) createdOperation) =
        [(''String'', ''id''), (''t_userevent.UserEvent'', ''req'')]
    \<and> constantValue (delimiterConstant delim) = Some (''delimiter'', Str delim)
    \<and> invoke w (publisherClass comment frugal eventsScope (''user.${id}'' @ delim))
        ''publishCreated'' [Str x, req] (publisherState T P n delim tr) =
      Some (Returned
        (w (tr @ publishEvents T P (''user.'' @ x @ delim @ ''Events'' @ delim @ ''Created'')
                   ''Created'' (n + 1) req))
        (publisherState T P (n + 1) delim
           (tr @ publishEvents T P (''user.'' @ x @ delim @ ''Events'' @ delim @ ''Created'')
                   ''Created'' (n + 1) req)))"
proof -
  have shape: "scopeShape delim eventsScope ''user.'' [(''id'', [])]"
    using assms by (rule eventsScope_shape)
  have name: "plainText (opName createdOperation)"
    by (simp add: eventsScope_values plainText_def)
  have len: "length [x] = length (Variables (Prefix eventsScope))"
    by (simp add: eventsScope_values)
  have t: "generatePrefixStringTemplate delim eventsScope = Some (''user.${id}'' @ delim)"
    using assms(2) by (rule eventsScope_template)
  have q: "qualifiedParamName frugal createdOperation = ''t_userevent.UserEvent''"
    by (simp add: qualifiedParamName_def createdOperation_def ToLower_def lowerChar_def)
  have p: "params (publishMethod comment frugal eventsScope (''user.${id}'' @ delim) createdOperation) =
        [(''String'', ''id''), (''t_userevent.UserEvent'', ''req'')]"
    by (simp add: publishMethod_def eventsScope_values q)
  have topic: "topicValue delim eventsScope ''user.'' [(''id'', [])] [x] createdOperation =
      ''user.'' @ x @ delim @ ''Events'' @ delim @ ''Created''"
    by (simp add: topicValue_def eventsScope_values)
  have "invoke w (publisherClass comment frugal eventsScope (''user.${id}'' @ delim))
     (''publish'' @ opName createdOperation) (map Str [x] @ [req])
     (publisherState T P n delim tr) =
   Some (Returned
     (w (tr @ publishEvents T P
        (topicValue delim eventsScope ''user.'' [(''id'', [])] [x] createdOperation)
           (opName createdOperation) (n + 1) req))
     (publisherState T P (n + 1) delim
        (tr @ publishEvents T P
           (topicValue delim eventsScope ''user.'' [(''id'', [])] [x] createdOperation)
           (opName createdOperation) (n + 1) req)))"
    using shape eventsScope_values(5) name len t by (rule invoke_publish)
  then have i: "invoke w (publisherClass comment frugal eventsScope (''user.${id}'' @ delim))
        ''publishCreated'' [Str x, req] (publisherState T P n delim tr) =
      Some (Returned
        (w (tr @ publishEvents T P (''user.'' @ x @ delim @ ''Events'' @ delim @ ''Created'')
                   ''Created'' (n + 1) req))
        (publisherState T P (n + 1) delim
           (tr @ publishEvents T P (''user.'' @ x @ delim @ ''Events'' @ delim @ ''Created'')
                   ''Created'' (n + 1) req)))"
    unfolding topic by (simp add: eventsScope_values)
  from q t GeneratePublisher_renders [OF t] p delimiter_value [OF assms(1)] i
  show ?thesis by blast
qed

theorem events_scenario_witness:
  "qualifiedParamName eventsSchema createdOperation = ''t_userevent.UserEvent''
   \<and> generatePrefixStringTemplate ''.'' eventsScope = Some ''user.${id}.''
   \<and> invoke silent (publisherClass noComment eventsSchema eventsScope ''user.${id}.'')
        ''publishCreated'' [Str ''42'', Global ''event'']
        (publisherState (Global ''transport'') (Global ''protocol'') 0 ''.'' []) =
      Some (Returned Null
        (publisherState (Global ''transport'') (Global ''protocol'') 1 ''.''
           (publishEvents (Global ''transport'') (Global ''protocol'') ''user.42.Events.Created''
              ''Created'' 1 (Global ''event''))))"
proof -
  have "plainText ''.''" and "CHR ''%'' \<notin> set ''.''"
    by (simp_all add: plainText_def)
  from events_scenario [OF this, of eventsSchema noComment silent "''42''" "Global ''event''"
      "Global ''transport''" "Global ''protocol''" 0 "[]"]
  show ?thesis by (simp add: silent_def)
qed

section \<open>The topic of the subscriber\<close>

text \<open>
  C8. The publish method and the subscribe method of an operation start with the same
  three statements, and these give the variable \<open>topic\<close> the same value in both: the
  compiled prefix with the values of the variables, the capitalized scope name, the
  delimiter and the operation name.
\<close>

theorem subscribe_topic_is_publish_topic:
  assumes "scopeShape delim scope s0 nss"
    and "plainText (opName op)"
    and "length xs = length (Variables (Prefix scope))"
    and "''on'' @ ParamName op \<notin> set (Variables (Prefix scope))"
  shows "\<exists>template frP frS.
     generatePrefixStringTemplate delim scope = Some template
     \<and> publishOperation comment delim frugal scope (variableArgs (Variables (Prefix scope))) op =
         Some (renderMethod (publishMethod comment frugal scope template op))
     \<and> body (publishMethod comment frugal scope template op) =
         topicStatements scope template op @ publishStatements
     \<and> subscribeOperation comment delim frugal scope (variableArgs (Variables (Prefix scope))) op =
         Some (subscribeText comment frugal scope template op @
               renderMethod (recvMethod frugal op))
     \<and> execs w (topicStatements scope template op)
         ((publisherState T P n delim tr)
            \<lparr>locals := bindParams (params (publishMethod comment frugal scope template op))
                         (map Str xs @ [req])\<rparr>) = Some (Proceed frP)
     \<and> execs w (topicStatements scope template op)
         ((subscriberState provider delim tr')
            \<lparr>locals := bindParams
                         (map (\<lambda>v. (''String'', v)) (Variables (Prefix scope)) @
                          [(''dynamic'', ''on'' @ ParamName op)])
                         (map Str xs @ [callback])\<rparr>) = Some (Proceed frS)
     \<and> lookup frP ''topic'' =
         Str (prefixValue delim scope s0 nss xs @ Title (scopeName scope) @ delim @ opName op)
     \<and> lookup frS ''topic'' = lookup frP ''topic''"
proof -
  from generatePrefixStringTemplate_shape [OF assms(1)]
  obtain template where t: "generatePrefixStringTemplate delim scope = Some template"
    by blast
  from assms(1) have "validVariables (Variables (Prefix scope))" by (simp add: scopeShape_def)
  then have req: "''req'' \<notin> set (Variables (Prefix scope))"
    by (auto simp: validVariables_def list_all_iff reservedNames_def)
  obtain frP where
    p: "execs w (topicStatements scope template op)
          \<lparr>locals = bindParams (map (\<lambda>v. (''String'', v)) (Variables (Prefix scope)) @
                        [(qualifiedParamName frugal op, ''req'')]) (map Str xs @ [req]),
           members = [(''transport'', T), (''protocol'', P), (''seqId'', Num n)],
           toplevel = [(''delimiter'', Str delim)], trace = tr\<rparr> = Some (Proceed frP)"
    and tp: "lookup frP ''topic'' = Str (topicValue delim scope s0 nss xs op)"
    using topicStatements_value [OF assms(1-3) t req, of
        "[(''transport'', T), (''protocol'', P), (''seqId'', Num n)]" w
        "qualifiedParamName frugal op" req tr]
    by auto
  obtain frS where
    s: "execs w (topicStatements scope template op)
          \<lparr>locals = bindParams (map (\<lambda>v. (''String'', v)) (Variables (Prefix scope)) @
                        [(''dynamic'', ''on'' @ ParamName op)]) (map Str xs @ [callback]),
           members = [(''provider'', provider)],
           toplevel = [(''delimiter'', Str delim)], trace = tr'\<rparr> = Some (Proceed frS)"
    and ts: "lookup frS ''topic'' = Str (topicValue delim scope s0 nss xs op)"
    using topicStatements_value [OF assms(1-3) t assms(4), of "[(''provider'', provider)]" w
        "''dynamic''" callback tr']
    by auto
  have b: "body (publishMethod comment frugal scope template op) =
         topicStatements scope template op @ publishStatements"
    by (simp add: publishMethod_def)
  show ?thesis
    using t publishOperation_renders [OF t] b subscribeOperation_renders [OF t] p s tp ts
    by (simp add: publisherState_def subscriberState_def publishMethod_def topicValue_def)
qed

theorem subscribe_topic_is_publish_topic_witness:
  "\<exists>frP frS.
     publishOperation noComment ''.'' eventsSchema eventsScope ''String id, '' createdOperation =
       Some (renderMethod (publishMethod noComment eventsSchema eventsScope ''user.${id}.''
               createdOperation))
     \<and> subscribeOperation noComment ''.'' eventsSchema eventsScope ''String id, ''
         createdOperation =
       Some (subscribeText noComment eventsSchema eventsScope ''user.${id}.'' createdOperation @
             renderMethod (recvMethod eventsSchema createdOperation))
     \<and> execs silent (topicStatements eventsScope ''user.${id}.'' createdOperation)
         ((publisherState (Global ''transport'') (Global ''protocol'') 0 ''.'' [])
            \<lparr>locals := [(''req'', Global ''event''), (''id'', Str ''42'')]\<rparr>) = Some (Proceed frP)
     \<and> execs silent (topicStatements eventsScope ''user.${id}.'' createdOperation)
         ((subscriberState (Global ''provider'') ''.'' [])
            \<lparr>locals := [(''onUserEvent'', Global ''callback''), (''id'', Str ''42'')]\<rparr>) =
         Some (Proceed frS)
     \<and> lookup frP ''topic'' = Str ''user.42.Events.Created''
     \<and> lookup frS ''topic'' = lookup frP ''topic''"
proof -
  have shape: "scopeShape ''.'' eventsScope ''user.'' [(''id'', [])]"
    by (rule eventsScope_shape) (simp_all add: plainText_def)
  have name: "plainText (opName createdOperation)"
    by (simp add: eventsScope_values plainText_def)
  have len: "length [''42''] = length (Variables (Prefix eventsScope))"
    by (simp add: eventsScope_values)
  have on: "''on'' @ ParamName createdOperation \<notin> set (Variables (Prefix eventsScope))"
    by (simp add: eventsScope_values createdOperation_def)
  have t: "generatePrefixStringTemplate ''.'' eventsScope = Some ''user.${id}.''"
    using eventsScope_template [of "''.''"] by simp
  have v: "variableArgs [''id''] = ''String id, ''"
    by (simp add: variableArgs_def)
  have pn: "ParamName createdOperation = ''UserEvent''"
    by (simp add: createdOperation_def)
  from subscribe_topic_is_publish_topic [OF shape name len on, where comment = noComment
      and frugal = eventsSchema and w = silent and T = "Global ''transport''"
      and P = "Global ''protocol''" and n = 0 and tr = "[]" and req = "Global ''event''"
      and provider = "Global ''provider''" and tr' = "[]" and callback = "Global ''callback''"]
  show ?thesis
    by (simp add: t v pn eventsScope_values publishMethod_def bindParams_def)
qed

section \<open>Sequence numbers\<close>

text \<open>
  C10. The constructor of a publisher sets the counter to 0, and after any list of
  publish calls on the instance, whatever the operations, the envelopes written carry the
  sequence numbers 1, 2, ... in the order of the calls: call \<open>k\<close> writes \<open>k\<close>, and the
  counter is the number of calls.
\<close>

theorem sequence_numbers_count_publishes:
  assumes "scopeShape delim scope s0 nss"
    and "\<forall>(op, xs, req)\<in>set cs. op \<in> set (Operations scope) \<and> plainText (opName op) \<and>
           length xs = length (Variables (Prefix scope))"
  shows "\<exists>template T P start final.
     generatePrefixStringTemplate delim scope = Some template
     \<and> GeneratePublisher comment delim frugal scope =
         Some (renderClass (publisherClass comment frugal scope template))
     \<and> construct w [(''delimiter'', Str delim)] (publisherClass comment frugal scope template)
         [provider] tr = Some (Returned Null (publisherState T P 0 delim start))
     \<and> invokeAll w (publisherClass comment frugal scope template) (map publishCall cs)
         (publisherState T P 0 delim start) =
         Some (publisherState T P (int (length cs)) delim final)
     \<and> final = start @ publishTrace T P delim scope s0 nss 0 cs
     \<and> sequenceNumbers (publishTrace T P delim scope s0 nss 0 cs) =
         map int [1..<Suc (length cs)]"
proof -
  from generatePrefixStringTemplate_shape [OF assms(1)]
  obtain template where t: "generatePrefixStringTemplate delim scope = Some template"
    by blast
  let ?tp = "w (tr @ [Call provider ''newTransportProtocol'' []])"
  let ?T = "select ?tp ''transport''" and ?P = "select ?tp ''protocol''"
  let ?start = "tr @ [Call provider ''newTransportProtocol'' []]"
  have c: "construct w [(''delimiter'', Str delim)] (publisherClass comment frugal scope template)
         [provider] tr = Some (Returned Null (publisherState ?T ?P 0 delim ?start))"
    by (rule construct_publisher)
  have i: "invokeAll w (publisherClass comment frugal scope template) (map publishCall cs)
         (publisherState ?T ?P 0 delim ?start) =
         Some (publisherState ?T ?P (0 + int (length cs)) delim
                 (?start @ publishTrace ?T ?P delim scope s0 nss 0 cs))"
    using assms(1) t assms(2) by (rule invokeAll_publish)
  have s: "sequenceNumbers (publishTrace ?T ?P delim scope s0 nss 0 cs) =
         map int [1..<Suc (length cs)]"
    using sequenceNumbers_publishTrace [of ?T ?P delim scope s0 nss 0 cs] by simp
  from t GeneratePublisher_renders [OF t] c i s show ?thesis
    by (intro exI [of _ template] exI [of _ ?T] exI [of _ ?P] exI [of _ ?start]
        exI [of _ "?start @ publishTrace ?T ?P delim scope s0 nss 0 cs"]) simp
qed

theorem sequence_numbers_count_publishes_witness:
  "\<exists>T P start final.
     construct silent [(''delimiter'', Str ''.'')]
       (publisherClass noComment eventsSchema eventsScope ''user.${id}.'')
       [Global ''provider''] [] = Some (Returned Null (publisherState T P 0 ''.'' start))
     \<and> invokeAll silent (publisherClass noComment eventsSchema eventsScope ''user.${id}.'')
         [(''publishCreated'', [Str ''42'', Global ''first'']),
          (''publishCreated'', [Str ''43'', Global ''second''])]
         (publisherState T P 0 ''.'' start) = Some (publisherState T P 2 ''.'' final)
     \<and> final = start @
         publishTrace T P ''.'' eventsScope ''user.'' [(''id'', [])] 0
           [(createdOperation, [''42''], Global ''first''),
            (createdOperation, [''43''], Global ''second'')]
     \<and> sequenceNumbers
         (publishTrace T P ''.'' eventsScope ''user.'' [(''id'', [])] 0
           [(createdOperation, [''42''], Global ''first''),
            (createdOperation, [''43''], Global ''second'')]) = [1, 2]"
proof -
  have shape: "scopeShape ''.'' eventsScope ''user.'' [(''id'', [])]"
    by (rule eventsScope_shape) (simp_all add: plainText_def)
  have calls: "\<forall>(op, xs, req)\<in>set [(createdOperation, [''42''], Global ''first''),
            (createdOperation, [''43''], Global ''second'')].
       op \<in> set (Operations eventsScope) \<and> plainText (opName op) \<and>
       length xs = length (Variables (Prefix eventsScope))"
    by (simp add: eventsScope_values plainText_def)
  have t: "generatePrefixStringTemplate ''.'' eventsScope = Some ''user.${id}.''"
    using eventsScope_template [of "''.''"] by simp
  from sequence_numbers_count_publishes [OF shape calls, where comment = noComment
      and frugal = eventsSchema and w = silent and provider = "Global ''provider''" and tr = "[]"]
  show ?thesis
    by (simp add: t publishCall_def eventsScope_values)
qed


end
